theory Spec2Isabelle
  imports Complex_Main
begin

section \<open>Python values used by the resolver\<close>

text \<open>
  A Python value that is either \<open>None\<close> or a \<open>str\<close> is a \<open>string option\<close>. Python's
  truth test makes \<open>None\<close> and the empty string false, and \<open>a or b\<close> evaluates to \<open>a\<close>
  when \<open>a\<close> is true and to \<open>b\<close> otherwise.
\<close>

fun truthy :: "string option \<Rightarrow> bool" where
  "truthy None = False"
| "truthy (Some s) = (s \<noteq> [])"

definition py_or :: "string option \<Rightarrow> string option \<Rightarrow> string option" where
  "py_or a b = (if truthy a then a else b)"

text \<open>\<open>"%d" % n\<close> for an integer: the decimal digits, with a minus sign when negative.\<close>

definition digit_char :: "nat \<Rightarrow> char" where
  "digit_char d = ''0123456789'' ! d"

function dec_nat :: "nat \<Rightarrow> string" where
  "dec_nat n = (if n < 10 then [digit_char n] else dec_nat (n div 10) @ [digit_char (n mod 10)])"
  by pat_completeness auto
termination
  by (relation "measure id") auto

declare dec_nat.simps [simp del]

definition format_d :: "int \<Rightarrow> string" where
  "format_d i = (if i < 0 then ''-'' @ dec_nat (nat (- i)) else dec_nat (nat i))"

text \<open>
  \<open>s.split(c)\<close> for a one-character separator: the fields between the separators, never an
  empty list. \<open>s.endswith(t)\<close> and the slice \<open>s[0:-len(t)]\<close> are written over lists.
\<close>

fun split_char :: "char \<Rightarrow> string \<Rightarrow> string list" where
  "split_char c [] = [[]]"
| "split_char c (x # xs) =
     (if x = c then [] # split_char c xs
      else (case split_char c xs of
              [] \<Rightarrow> [[x]]
            | f # fs \<Rightarrow> (x # f) # fs))"

definition endswith :: "string \<Rightarrow> string \<Rightarrow> bool" where
  "endswith s t = (length t \<le> length s \<and> drop (length s - length t) s = t)"

text \<open>\<open>os.path.join\<close> of two components, as \<open>posixpath\<close> computes it.\<close>

definition os_path_join :: "string \<Rightarrow> string \<Rightarrow> string" where
  "os_path_join a b =
     (if b \<noteq> [] \<and> hd b = CHR ''/'' then b
      else if a = [] \<or> last a = CHR ''/'' then a @ b
      else a @ ''/'' @ b)"

section \<open>Cache directory configuration\<close>

text \<open>
  The process environment is a map from variable names to values and the flag registry
  gives each defined flag its value (\<open>None\<close> while unset). \<open>os.getenv(name, "")\<close> reads
  the first with the empty string as default.
\<close>

type_synonym environ = "string \<rightharpoonup> string"
type_synonym flag_values = "string \<Rightarrow> string option"

definition os_getenv :: "environ \<Rightarrow> string \<Rightarrow> string \<Rightarrow> string" where
  "os_getenv env name dflt = (case env name of None \<Rightarrow> dflt | Some v \<Rightarrow> v)"

definition TFHUB_CACHE_DIR :: string where
  "TFHUB_CACHE_DIR = ''TFHUB_CACHE_DIR''"

definition TFHUB_DOWNLOAD_PROGRESS :: string where
  "TFHUB_DOWNLOAD_PROGRESS = ''TFHUB_DOWNLOAD_PROGRESS''"

definition get_env_setting :: "environ \<Rightarrow> flag_values \<Rightarrow> string \<Rightarrow> string \<Rightarrow> string option" where
  "get_env_setting env flags env_var flag_name =
     py_or (Some (os_getenv env env_var [])) (flags flag_name)"

text \<open>
  \<open>tfhub_cache_dir\<close>; \<open>gettempdir\<close> is the value of \<open>tempfile.gettempdir()\<close>. The
  \<open>log_first_n\<close> line does not change the returned value and is left out.
\<close>

definition tfhub_cache_dir ::
  "environ \<Rightarrow> flag_values \<Rightarrow> string \<Rightarrow> string option \<Rightarrow> bool \<Rightarrow> string option" where
  "tfhub_cache_dir env flags gettempdir default_cache_dir use_temp =
     (let cache_dir = py_or (get_env_setting env flags TFHUB_CACHE_DIR ''tfhub_cache_dir'')
                            default_cache_dir
      in if \<not> truthy cache_dir \<and> use_temp
         then Some (os_path_join gettempdir ''tfhub_modules'')
         else cache_dir)"

section \<open>Exceptions\<close>

text \<open>
  The subclasses of \<open>tf.errors.OpError\<close>, one per TensorFlow status code, and the Python
  exceptions the resolver raises, catches or lets through. \<open>ReadError\<close> is
  \<open>tarfile.ReadError\<close>; \<open>OtherError\<close> stands for any exception of another class (what a
  download callback may raise, a keyboard interrupt).
\<close>

datatype op_error =
    CancelledError | UnknownError | InvalidArgumentError | DeadlineExceededError
  | NotFoundError | AlreadyExistsError | PermissionDeniedError | UnauthenticatedError
  | ResourceExhaustedError | FailedPreconditionError | AbortedError | OutOfRangeError
  | UnimplementedError | InternalError | UnavailableError | DataLossError

datatype exn =
    OpError op_error
  | IOError string
  | ValueError string
  | ReadError
  | OtherError string

section \<open>Storage\<close>

text \<open>
  The storage backend (\<open>tf.compat.v1.gfile\<close>) is external. It is modelled as a namespace
  from the path strings the protocol uses to nodes; a directory node carries its entries,
  so \<open>Stat(os.path.join(directory, elem))\<close> is the entry's own node and the length of a
  file is the length of its content. Renaming or deleting a directory moves or removes the
  whole node.

  The world of one task is the storage, the clock that \<open>time.time()\<close> reads, and the list
  of the calls made so far that change storage, run the download callback or sleep. Storage
  calls take no time; \<open>time.sleep(d)\<close> advances the clock by \<open>d\<close>.
\<close>

datatype node = File string | Dir "(string \<times> node) list"

type_synonym storage = "string \<Rightarrow> node option"

datatype call =
    Call_Write string string bool
  | Call_MakeDirs string
  | Call_Download string string
  | Call_Rename string string
  | Call_DeleteRecursively string
  | Call_Remove string
  | Call_Sleep real

record world =
  files :: storage
  clock :: real
  calls :: "call list"

definition called :: "call \<Rightarrow> world \<Rightarrow> world" where
  "called c w = w\<lparr>calls := calls w @ [c]\<rparr>"

definition gfile_Exists :: "world \<Rightarrow> string \<Rightarrow> bool" where
  "gfile_Exists w path = (files w path \<noteq> None)"

definition gfile_ListDirectory :: "world \<Rightarrow> string \<Rightarrow> exn + string list" where
  "gfile_ListDirectory w path =
     (case files w path of
        Some (Dir entries) \<Rightarrow> Inr (map fst entries)
      | _ \<Rightarrow> Inl (OpError NotFoundError))"

definition gfile_MakeDirs :: "world \<Rightarrow> string \<Rightarrow> (exn + unit) \<times> world" where
  "gfile_MakeDirs w path =
     (let w' = called (Call_MakeDirs path) w
      in case files w path of
           None \<Rightarrow> (Inr (), w'\<lparr>files := (files w)(path \<mapsto> Dir [])\<rparr>)
         | Some (Dir entries) \<Rightarrow> (Inr (), w')
         | Some (File content) \<Rightarrow> (Inl (OpError FailedPreconditionError), w'))"

text \<open>\<open>Rename(src, dst)\<close> without overwrite: the destination is tested first.\<close>

definition gfile_Rename :: "world \<Rightarrow> string \<Rightarrow> string \<Rightarrow> (exn + unit) \<times> world" where
  "gfile_Rename w src dst =
     (let w' = called (Call_Rename src dst) w
      in if files w dst \<noteq> None then (Inl (OpError AlreadyExistsError), w')
         else (case files w src of
                 None \<Rightarrow> (Inl (OpError NotFoundError), w')
               | Some n \<Rightarrow> (Inr (), w'\<lparr>files := (files w)(src := None, dst \<mapsto> n)\<rparr>)))"

definition gfile_DeleteRecursively :: "world \<Rightarrow> string \<Rightarrow> (exn + unit) \<times> world" where
  "gfile_DeleteRecursively w path =
     (let w' = called (Call_DeleteRecursively path) w
      in case files w path of
           None \<Rightarrow> (Inl (OpError NotFoundError), w')
         | Some n \<Rightarrow> (Inr (), w'\<lparr>files := (files w)(path := None)\<rparr>))"

definition gfile_Remove :: "world \<Rightarrow> string \<Rightarrow> (exn + unit) \<times> world" where
  "gfile_Remove w path =
     (let w' = called (Call_Remove path) w
      in case files w path of
           None \<Rightarrow> (Inl (OpError NotFoundError), w')
         | Some (Dir entries) \<Rightarrow> (Inl (OpError FailedPreconditionError), w')
         | Some (File content) \<Rightarrow> (Inr (), w'\<lparr>files := (files w)(path := None)\<rparr>))"

definition time_sleep :: "real \<Rightarrow> world \<Rightarrow> world" where
  "time_sleep d w = called (Call_Sleep d) (w\<lparr>clock := clock w + d\<rparr>)"

text \<open>
  Modelled from the spec: \<open>tf_utils.read_file_to_string\<close> is not among the sources; the
  spec's \<open>readString(path)\<close> returns the content of the file and fails with not-found when
  the file has vanished. Reading a directory fails with a different storage error.
\<close>

definition read_file_to_string :: "world \<Rightarrow> string \<Rightarrow> exn + string" where
  "read_file_to_string w path =
     (case files w path of
        None \<Rightarrow> Inl (OpError NotFoundError)
      | Some (File content) \<Rightarrow> Inr content
      | Some (Dir entries) \<Rightarrow> Inl (OpError FailedPreconditionError))"

text \<open>
  Modelled from the spec: \<open>tf_utils.atomic_write_string_to_file\<close> is not among the
  sources; the spec's \<open>writeStringExclusive(path, content)\<close> fails if the path exists
  unless overwrite is requested. The resolver itself takes the write primitive from the
  process context below, so that a backend failing with any error class is covered; this
  definition is the instance for a backend that does not fail otherwise.
\<close>

definition write_string_exclusive :: "storage \<Rightarrow> string \<Rightarrow> string \<Rightarrow> bool \<Rightarrow> exn + storage" where
  "write_string_exclusive fs path content overwrite =
     (if fs path \<noteq> None \<and> \<not> overwrite then Inl (OpError AlreadyExistsError)
      else Inr (fs(path \<mapsto> File content)))"

section \<open>Process context\<close>

text \<open>
  What the resolver reads from its process and from \<open>tf_utils\<close>: \<open>absolute_path\<close>,
  \<open>socket.gethostname()\<close>, \<open>os.getpid()\<close>, \<open>uuid.uuid4().hex\<close>,
  \<open>str(datetime.datetime.today())\<close> and \<open>atomic_write_string_to_file\<close>, whose failure
  leaves the storage as it was.
\<close>

record proc =
  absolute_path :: "string \<Rightarrow> string"
  gethostname :: string
  getpid :: int
  uuid4_hex :: string
  today :: string
  atomic_write_string_to_file :: "storage \<Rightarrow> string \<Rightarrow> string \<Rightarrow> bool \<Rightarrow> exn + storage"

type_synonym download_callback = "string \<Rightarrow> string \<Rightarrow> storage \<Rightarrow> (exn + unit) \<times> storage"

section \<open>Lock record and path derivation\<close>

text \<open>
  The functions of \<open>tf_utils\<close> are not part of the sources at hand. \<open>absolute_path\<close> is
  taken as a parameter \<open>abs_path\<close> wherever the resolver calls it; the host name, the
  process id and the task uid (\<open>uuid.uuid4().hex\<close>) are parameters as well.
\<close>

definition lock_file_contents :: "string \<Rightarrow> int \<Rightarrow> string \<Rightarrow> string" where
  "lock_file_contents hostname pid task_uid =
     hostname @ ''.'' @ format_d pid @ ''.'' @ task_uid"

definition lock_filename :: "(string \<Rightarrow> string) \<Rightarrow> string \<Rightarrow> string" where
  "lock_filename abs_path module_dir = abs_path module_dir @ ''.lock''"

definition module_descriptor_file :: "string \<Rightarrow> string" where
  "module_descriptor_file module_dir = module_dir @ ''.descriptor.txt''"

definition temp_download_dir :: "(string \<Rightarrow> string) \<Rightarrow> string \<Rightarrow> string \<Rightarrow> string" where
  "temp_download_dir abs_path module_dir task_uid =
     abs_path module_dir @ ''.'' @ task_uid @ ''.tmp''"

text \<open>The decoding step of \<open>_task_uid_from_lock_file\<close>: \<open>lock.split(".")[-1]\<close>.\<close>

definition task_uid_of_contents :: "string \<Rightarrow> string" where
  "task_uid_of_contents lock = last (split_char CHR ''.'' lock)"

definition lock_module_dir :: "string \<Rightarrow> exn + string" where
  "lock_module_dir lock_file =
     (if \<not> endswith lock_file ''.lock''
      then Inl (ValueError (''Lock file name ('' @ lock_file @ '') has to end with .lock.''))
      else Inr (take (length lock_file - length ''.lock'') lock_file))"

definition task_uid_from_lock_file :: "world \<Rightarrow> string \<Rightarrow> exn + string" where
  "task_uid_from_lock_file w lock_file =
     (case read_file_to_string w lock_file of
        Inl e \<Rightarrow> Inl e
      | Inr lock \<Rightarrow> Inr (task_uid_of_contents lock))"

definition write_module_descriptor_file ::
  "proc \<Rightarrow> string \<Rightarrow> string \<Rightarrow> world \<Rightarrow> (exn + unit) \<times> world" where
  "write_module_descriptor_file P handle module_dir w =
     (let readme = module_descriptor_file module_dir;
          readme_content =
            ''Module: '' @ handle @ [CHR 0x0A] @ ''Download Time: '' @ today P @ [CHR 0x0A]
            @ ''Downloader Hostname: '' @ gethostname P @ '' (PID:'' @ format_d (getpid P) @ '')'';
          w' = called (Call_Write readme readme_content True) w
      in case atomic_write_string_to_file P (files w) readme readme_content True of
           Inl e \<Rightarrow> (Inl e, w')
         | Inr fs \<Rightarrow> (Inr (), w'\<lparr>files := fs\<rparr>))"

section \<open>Staleness monitor\<close>

text \<open>\<open>_dir_size\<close>: the total length of the files below a directory.\<close>

fun entries_size :: "(string \<times> node) list \<Rightarrow> nat"
  and elem_size :: "node \<Rightarrow> nat" where
  "entries_size [] = 0"
| "entries_size ((elem, n) # entries) = elem_size n + entries_size entries"
| "elem_size (File content) = length content"
| "elem_size (Dir entries) = entries_size entries"

definition dir_size :: "world \<Rightarrow> string \<Rightarrow> exn + nat" where
  "dir_size w directory =
     (case files w directory of
        Some (Dir entries) \<Rightarrow> Inr (entries_size entries)
      | _ \<Rightarrow> Inl (OpError NotFoundError))"

definition locked_tmp_dir_size :: "proc \<Rightarrow> world \<Rightarrow> string \<Rightarrow> exn + nat" where
  "locked_tmp_dir_size P w lock_file =
     (case task_uid_from_lock_file w lock_file of
        Inl e \<Rightarrow> Inl e
      | Inr task_uid \<Rightarrow>
          (case lock_module_dir lock_file of
             Inl e \<Rightarrow> Inl e
           | Inr module_dir \<Rightarrow>
               (case dir_size w (temp_download_dir (absolute_path P) module_dir task_uid) of
                  Inl e \<Rightarrow> if e = OpError NotFoundError then Inr 0 else Inl e
                | Inr n \<Rightarrow> Inr n)))"

text \<open>
  The loop variables of \<open>_wait_for_lock_to_disappear\<close> are \<open>locked_tmp_dir_size\<close>,
  \<open>locked_tmp_dir_size_check_time\<close> and \<open>lock_file_content\<close>. One pass through the
  \<open>try\<close> block either breaks out of the loop, goes on with the loop variables it leaves,
  or raises.
\<close>

type_synonym wait_vars = "nat \<times> real \<times> string option"

datatype wait_ctl = Break | Continue wait_vars | Raised exn

definition wait_try :: "proc \<Rightarrow> string \<Rightarrow> real \<Rightarrow> wait_vars \<Rightarrow> world \<Rightarrow> wait_ctl \<times> world" where
  "wait_try P lock_file lock_file_timeout_sec vars w =
     (case vars of (tmp_size, check_time, lock_file_content) \<Rightarrow>
        (case read_file_to_string w lock_file of
           Inl e \<Rightarrow> (Raised e, w)
         | Inr logged \<Rightarrow>
             if clock w - check_time > lock_file_timeout_sec
             then (case locked_tmp_dir_size P w lock_file of
                     Inl e \<Rightarrow> (Raised e, w)
                   | Inr cur_locked_tmp_dir_size \<Rightarrow>
                       (case read_file_to_string w lock_file of
                          Inl e \<Rightarrow> (Raised e, w)
                        | Inr cur_lock_file_content \<Rightarrow>
                            if cur_locked_tmp_dir_size = tmp_size
                               \<and> Some cur_lock_file_content = lock_file_content
                            then (case gfile_Remove w lock_file of
                                    (Inl e, w') \<Rightarrow> (Raised e, w')
                                  | (Inr u, w') \<Rightarrow> (Break, w'))
                            else (Continue (cur_locked_tmp_dir_size, clock w,
                                            Some cur_lock_file_content), w)))
             else (Continue vars, w)))"

text \<open>
  The \<open>while\<close> loop, with the number of polls left as fuel: \<open>None\<close> is a loop still
  running when the fuel is spent. The \<open>finally\<close> clause sleeps after every pass, also
  after the \<open>break\<close>; \<open>NotFoundError\<close> is passed over with the loop variables unchanged.
\<close>

fun wait_loop ::
  "proc \<Rightarrow> nat \<Rightarrow> string \<Rightarrow> real \<Rightarrow> wait_vars \<Rightarrow> world \<Rightarrow> ((exn + unit) \<times> world) option" where
  "wait_loop P 0 lock_file lock_file_timeout_sec vars w = None"
| "wait_loop P (Suc n) lock_file lock_file_timeout_sec vars w =
     (if \<not> gfile_Exists w lock_file then Some (Inr (), w)
      else (case wait_try P lock_file lock_file_timeout_sec vars w of
              (Break, w') \<Rightarrow> Some (Inr (), time_sleep 5 w')
            | (Continue vars', w') \<Rightarrow>
                wait_loop P n lock_file lock_file_timeout_sec vars' (time_sleep 5 w')
            | (Raised e, w') \<Rightarrow>
                if e = OpError NotFoundError
                then wait_loop P n lock_file lock_file_timeout_sec vars (time_sleep 5 w')
                else Some (Inl e, time_sleep 5 w')))"

definition wait_for_lock_to_disappear ::
  "proc \<Rightarrow> nat \<Rightarrow> string \<Rightarrow> string \<Rightarrow> real \<Rightarrow> world \<Rightarrow> ((exn + unit) \<times> world) option" where
  "wait_for_lock_to_disappear P n handle lock_file lock_file_timeout_sec w =
     wait_loop P n lock_file lock_file_timeout_sec (0, clock w, None) w"

section \<open>Cache population\<close>

definition check_module_exists :: "world \<Rightarrow> string \<Rightarrow> exn + bool" where
  "check_module_exists w module_dir =
     (if gfile_Exists w module_dir
      then (case gfile_ListDirectory w module_dir of
              Inl e \<Rightarrow> Inl e
            | Inr names \<Rightarrow> Inr (names \<noteq> []))
      else Inr False)"

text \<open>The error classes that the lock acquisition re-raises; every other one is retried.\<close>

fun permanent :: "op_error \<Rightarrow> bool" where
  "permanent NotFoundError = True"
| "permanent PermissionDeniedError = True"
| "permanent UnauthenticatedError = True"
| "permanent ResourceExhaustedError = True"
| "permanent InternalError = True"
| "permanent InvalidArgumentError = True"
| "permanent UnimplementedError = True"
| "permanent c = False"

text \<open>
  One pass through the inner \<open>try\<close> of the acquisition loop ends in one of four ways:
  the lock is held and the download may start, the module turned out to be populated
  (\<open>return module_dir\<close>), the error was swallowed and the loop goes on to wait, or an
  exception leaves the loop.
\<close>

datatype acquisition = Acquired | Populated | Retry | Failed exn

fun lock_except :: "exn \<Rightarrow> acquisition" where
  "lock_except (OpError c) = (if permanent c then Failed (OpError c) else Retry)"
| "lock_except e = Failed e"

definition lock_try :: "proc \<Rightarrow> string \<Rightarrow> string \<Rightarrow> string \<Rightarrow> world \<Rightarrow> acquisition \<times> world" where
  "lock_try P module_dir lock_file lock_contents w =
     (let w0 = called (Call_Write lock_file lock_contents False) w
      in case atomic_write_string_to_file P (files w) lock_file lock_contents False of
           Inl e \<Rightarrow> (lock_except e, w0)
         | Inr fs \<Rightarrow>
             (let w1 = w0\<lparr>files := fs\<rparr>
              in case check_module_exists w1 module_dir of
                   Inl e \<Rightarrow> (lock_except e, w1)
                 | Inr True \<Rightarrow> (Populated, w1)
                 | Inr False \<Rightarrow>
                     if gfile_Exists w1 module_dir
                     then (case gfile_DeleteRecursively w1 module_dir of
                             (Inl e, w2) \<Rightarrow> (lock_except e, w2)
                           | (Inr u, w2) \<Rightarrow> (Acquired, w2))
                     else (Acquired, w1)))"

text \<open>
  The \<open>while True\<close> loop, with the number of attempts left as fuel; a wait inside an
  attempt polls at most as often as there are attempts left.
\<close>

fun acquire_loop ::
  "proc \<Rightarrow> nat \<Rightarrow> string \<Rightarrow> string \<Rightarrow> string \<Rightarrow> string \<Rightarrow> real \<Rightarrow> world
     \<Rightarrow> (acquisition \<times> world) option" where
  "acquire_loop P 0 handle module_dir lock_file lock_contents lock_file_timeout_sec w = None"
| "acquire_loop P (Suc n) handle module_dir lock_file lock_contents lock_file_timeout_sec w =
     (case lock_try P module_dir lock_file lock_contents w of
        (Retry, w1) \<Rightarrow>
          (case wait_for_lock_to_disappear P n handle lock_file lock_file_timeout_sec w1 of
             None \<Rightarrow> None
           | Some (Inl e, w2) \<Rightarrow> Some (Failed e, w2)
           | Some (Inr u, w2) \<Rightarrow>
               acquire_loop P n handle module_dir lock_file lock_contents
                 lock_file_timeout_sec w2)
      | (a, w1) \<Rightarrow> Some (a, w1))"

text \<open>The statements after the loop, run with the lock held.\<close>

definition download_and_publish ::
  "proc \<Rightarrow> string \<Rightarrow> download_callback \<Rightarrow> string \<Rightarrow> string \<Rightarrow> world \<Rightarrow> (exn + unit) \<times> world" where
  "download_and_publish P handle download_fn module_dir tmp_dir w =
     (case gfile_MakeDirs w tmp_dir of
        (Inl e, w1) \<Rightarrow> (Inl e, w1)
      | (Inr u, w1) \<Rightarrow>
          (case download_fn handle tmp_dir (files w1) of
             (r, fs) \<Rightarrow>
               (let w2 = called (Call_Download handle tmp_dir) (w1\<lparr>files := fs\<rparr>)
                in case r of
                     Inl e \<Rightarrow> (Inl e, w2)
                   | Inr u \<Rightarrow>
                       (case write_module_descriptor_file P handle module_dir w2 of
                          (Inl e, w3) \<Rightarrow> (Inl e, w3)
                        | (Inr u, w3) \<Rightarrow>
                            (case gfile_Rename w3 tmp_dir module_dir of
                               (Inl e, w4) \<Rightarrow>
                                 if e = OpError AlreadyExistsError then (Inr (), w4)
                                 else (Inl e, w4)
                             | (Inr u, w4) \<Rightarrow> (Inr (), w4))))))"

text \<open>The \<open>finally\<close> clause.\<close>

definition cleanup :: "string \<Rightarrow> string \<Rightarrow> string \<Rightarrow> world \<Rightarrow> (exn + unit) \<times> world" where
  "cleanup tmp_dir lock_file lock_contents w =
     (case gfile_DeleteRecursively w tmp_dir of
        (r, w1) \<Rightarrow>
          if r \<noteq> Inr () \<and> r \<noteq> Inl (OpError NotFoundError) then (r, w1)
          else (case (case read_file_to_string w1 lock_file of
                        Inl e \<Rightarrow> if e = OpError NotFoundError then Inr [] else Inl e
                      | Inr contents \<Rightarrow> Inr contents) of
                  Inl e \<Rightarrow> (Inl e, w1)
                | Inr contents \<Rightarrow>
                    if contents = lock_contents
                    then (case gfile_Remove w1 lock_file of
                            (r', w2) \<Rightarrow>
                              if r' = Inl (OpError NotFoundError) then (Inr (), w2)
                              else (r', w2))
                    else (Inr (), w1)))"

text \<open>
  \<open>atomic_download\<close>. An exception raised by the \<open>finally\<close> clause replaces the outcome
  of the \<open>try\<close> block, as in Python.
\<close>

definition atomic_download ::
  "proc \<Rightarrow> nat \<Rightarrow> string \<Rightarrow> download_callback \<Rightarrow> string \<Rightarrow> real \<Rightarrow> world
     \<Rightarrow> ((exn + string) \<times> world) option" where
  "atomic_download P fuel handle download_fn module_dir lock_file_timeout_sec w =
     (let lock_file = lock_filename (absolute_path P) module_dir;
          task_uid = uuid4_hex P;
          lock_contents = lock_file_contents (gethostname P) (getpid P) task_uid;
          tmp_dir = temp_download_dir (absolute_path P) module_dir task_uid
      in case check_module_exists w module_dir of
           Inl e \<Rightarrow> Some (Inl e, w)
         | Inr True \<Rightarrow> Some (Inr module_dir, w)
         | Inr False \<Rightarrow>
             (case acquire_loop P fuel handle module_dir lock_file lock_contents
                     lock_file_timeout_sec w of
                None \<Rightarrow> None
              | Some (a, w1) \<Rightarrow>
                  (case (case a of
                           Acquired \<Rightarrow>
                             download_and_publish P handle download_fn module_dir tmp_dir w1
                         | Populated \<Rightarrow> (Inr (), w1)
                         | Retry \<Rightarrow> (Inr (), w1)
                         | Failed e \<Rightarrow> (Inl e, w1)) of
                     (r, w2) \<Rightarrow>
                       (case cleanup tmp_dir lock_file lock_contents w2 of
                          (Inl e, w3) \<Rightarrow> Some (Inl e, w3)
                        | (Inr u, w3) \<Rightarrow>
                            Some (case r of Inl e \<Rightarrow> Inl e | Inr u \<Rightarrow> Inr module_dir, w3)))))"

section \<open>Progress reporter\<close>

text \<open>
  The fields of \<open>DownloadManager\<close> and what it prints: a write to \<open>sys.stdout\<close>, a
  \<open>print\<close>, or a line of the log. \<open>tf_utils.bytes_to_readable_str\<close> is not among the
  sources and is the parameter \<open>readable\<close>.
\<close>

record download_manager =
  url :: string
  last_progress_msg_print_time :: real
  total_bytes_downloaded :: int
  max_prog_str :: nat

datatype printed = Stdout_write string | Print string | Logging_info string

definition init_download_manager :: "string \<Rightarrow> real \<Rightarrow> download_manager" where
  "init_download_manager u now =
     \<lparr>url = u, last_progress_msg_print_time = now, total_bytes_downloaded = 0,
      max_prog_str = 0\<rparr>"

definition interactive_mode :: "environ \<Rightarrow> string" where
  "interactive_mode env = os_getenv env TFHUB_DOWNLOAD_PROGRESS []"

definition print_download_progress_msg ::
  "environ \<Rightarrow> string \<Rightarrow> bool \<Rightarrow> download_manager \<Rightarrow> download_manager \<times> printed list" where
  "print_download_progress_msg env msg flush dm =
     (if interactive_mode env \<noteq> []
      then (let m = max (max_prog_str dm) (length msg)
            in (dm\<lparr>max_prog_str := m\<rparr>,
                Stdout_write (CHR 0x0D # msg @ replicate (m - length msg) CHR '' '')
                # (if flush then [Print [CHR 0x0A]] else [])))
      else (dm, [Logging_info msg]))"

definition log_progress ::
  "environ \<Rightarrow> (int \<Rightarrow> bool \<Rightarrow> string) \<Rightarrow> real \<Rightarrow> int \<Rightarrow> download_manager
     \<Rightarrow> download_manager \<times> printed list" where
  "log_progress env readable now bytes_downloaded dm =
     (let dm1 = dm\<lparr>total_bytes_downloaded := total_bytes_downloaded dm + bytes_downloaded\<rparr>
      in if interactive_mode env \<noteq> [] \<or> now - last_progress_msg_print_time dm1 > 15
         then (case print_download_progress_msg env
                      (''Downloading '' @ url dm1 @ '': ''
                       @ readable (total_bytes_downloaded dm1) True) False dm1 of
                 (dm2, out) \<Rightarrow> (dm2\<lparr>last_progress_msg_print_time := now\<rparr>, out))
         else (dm1, []))"

text \<open>
  \<open>file_utils.extract_tarfile_to_destination\<close> is not among the sources. What the
  download manager sees of one extraction is the sequence of calls of its
  \<open>log_function\<close>, each at some clock reading with some number of bytes, and how the
  extraction ends: normally, or with an exception.
\<close>

type_synonym extraction = "(real \<times> int) list \<times> exn option"

fun log_progress_calls ::
  "environ \<Rightarrow> (int \<Rightarrow> bool \<Rightarrow> string) \<Rightarrow> (real \<times> int) list \<Rightarrow> download_manager
     \<Rightarrow> download_manager \<times> (real \<times> printed list) list" where
  "log_progress_calls env readable [] dm = (dm, [])"
| "log_progress_calls env readable ((now, n) # rest) dm =
     (case log_progress env readable now n dm of
        (dm1, out) \<Rightarrow>
          (case log_progress_calls env readable rest dm1 of
             (dm2, outs) \<Rightarrow> (dm2, (now, out) # outs)))"

definition download_and_uncompress ::
  "environ \<Rightarrow> (int \<Rightarrow> bool \<Rightarrow> string) \<Rightarrow> extraction \<Rightarrow> download_manager
     \<Rightarrow> (exn + unit) \<times> download_manager \<times> printed list" where
  "download_and_uncompress env readable fileobj dm =
     (case fileobj of (invocations, ending) \<Rightarrow>
        (case log_progress_calls env readable invocations dm of
           (dm1, outs) \<Rightarrow>
             (case ending of
                None \<Rightarrow>
                  (case print_download_progress_msg env
                          (''Downloaded '' @ url dm1 @ '', Total size: ''
                           @ readable (total_bytes_downloaded dm1) True) True dm1 of
                     (dm2, out) \<Rightarrow> (Inr (), dm2, concat (map snd outs) @ out))
              | Some ReadError \<Rightarrow>
                  (Inl (IOError (url dm1 @ '' does not appear to be a valid module.'')),
                   dm1, concat (map snd outs))
              | Some e \<Rightarrow> (Inl e, dm1, concat (map snd outs)))))"

section \<open>Notions used in the statements\<close>

text \<open>
  A path holds no directory when it is absent or a file; \<open>removed\<close> is the world after a
  successful \<open>Remove\<close>; \<open>is_rename\<close> picks the renames out of the calls made.
\<close>

definition no_directory_at :: "storage \<Rightarrow> string \<Rightarrow> bool" where
  "no_directory_at fs path = (case fs path of Some (Dir entries) \<Rightarrow> False | _ \<Rightarrow> True)"

definition removed :: "string \<Rightarrow> world \<Rightarrow> world" where
  "removed path w = (called (Call_Remove path) w)\<lparr>files := (files w)(path := None)\<rparr>"

fun is_rename :: "call \<Rightarrow> bool" where
  "is_rename (Call_Rename src dst) = True"
| "is_rename c = False"

text \<open>The clock readings at which a call of \<open>_log_progress\<close> printed something.\<close>

definition emission_times :: "(real \<times> printed list) list \<Rightarrow> real list" where
  "emission_times outs = map fst (filter (\<lambda>p. snd p \<noteq> []) outs)"

text \<open>
  What counts as a message among the things printed (the \<open>print("\n")\<close> that follows a
  flushed console message is not one), and whether an outcome is a raised \<open>IOError\<close>,
  Python's generic I/O error class.
\<close>

fun is_message :: "printed \<Rightarrow> bool" where
  "is_message (Stdout_write s) = True"
| "is_message (Logging_info s) = True"
| "is_message (Print s) = False"

fun raises_IOError :: "exn + 'a \<Rightarrow> bool" where
  "raises_IOError (Inl (IOError msg)) = True"
| "raises_IOError r = False"

text \<open>
  The world after a number of sleeps of the poll interval, and the number of polls after
  which more than a timeout of at least zero has passed.
\<close>

fun slept :: "nat \<Rightarrow> world \<Rightarrow> world" where
  "slept 0 w = w"
| "slept (Suc j) w = slept j (time_sleep 5 w)"


section \<open>Example processes, worlds and download callbacks\<close>

text \<open>
  A process on a backend whose exclusive write fails only when the file exists, and one on
  a backend that denies every write, or fails every write with a given error class; an
  empty storage, one where another task holds the
  lock of \<open>/c/m\<close>, one where the holder of that lock also has a temporary directory
  that does not grow, and one where \<open>/c/m\<close> is populated; a download that completes, one
  that fails after a partial write, one that fails after another task has taken over the
  lock file, one that fails after another task has taken over the lock, published the
  module and released the lock, and one during which another task publishes the module.
\<close>

definition example_proc :: proc where
  "example_proc =
     \<lparr>absolute_path = (\<lambda>p. p), gethostname = ''host'', getpid = 42, uuid4_hex = ''u1'',
      today = ''2020-01-01'', atomic_write_string_to_file = write_string_exclusive\<rparr>"

definition denied_proc :: proc where
  "denied_proc =
     example_proc\<lparr>atomic_write_string_to_file :=
                    (\<lambda>fs path content overwrite. Inl (OpError PermissionDeniedError))\<rparr>"

definition failing_proc :: "op_error \<Rightarrow> proc" where
  "failing_proc c =
     example_proc\<lparr>atomic_write_string_to_file :=
                    (\<lambda>fs path content overwrite. Inl (OpError c))\<rparr>"

definition empty_world :: world where
  "empty_world = \<lparr>files = Map.empty, clock = 0, calls = []\<rparr>"

definition locked_world :: world where
  "locked_world = \<lparr>files = [''/c/m.lock'' \<mapsto> File ''other.7.u0''], clock = 0, calls = []\<rparr>"


definition populated_world :: world where
  "populated_world =
     \<lparr>files = [''/c/m'' \<mapsto> Dir [(''saved_model.pb'', File ''abc'')]], clock = 0, calls = []\<rparr>"

definition complete_download :: download_callback where
  "complete_download handle tmp_dir fs =
     (Inr (), fs(tmp_dir \<mapsto> Dir [(''saved_model.pb'', File ''abc'')]))"

definition failing_download :: download_callback where
  "failing_download handle tmp_dir fs =
     (Inl (OtherError ''connection reset''), fs(tmp_dir \<mapsto> Dir [(''part'', File ''ab'')]))"

definition usurped_download :: download_callback where
  "usurped_download handle tmp_dir fs =
     (Inl (OtherError ''connection reset''),
      fs(tmp_dir \<mapsto> Dir [(''part'', File ''ab'')], ''/c/m.lock'' \<mapsto> File ''other.9.u2''))"

definition outrun_download :: download_callback where
  "outrun_download handle tmp_dir fs =
     (Inl (OtherError ''connection reset''),
      fs(tmp_dir \<mapsto> Dir [(''part'', File ''ab'')], ''/c/m.lock'' := None,
         ''/c/m'' \<mapsto> Dir [(''saved_model.pb'', File ''xyz'')]))"

definition overtaken_download :: download_callback where
  "overtaken_download handle tmp_dir fs =
     (Inr (), fs(tmp_dir \<mapsto> Dir [(''saved_model.pb'', File ''abc'')],
                 ''/c/m'' \<mapsto> Dir [(''saved_model.pb'', File ''xyz'')]))"

section \<open>Properties\<close>

lemma split_char_not_Nil: "split_char c s \<noteq> []"
  by (induction s) (auto split: list.splits)

lemma split_char_no_sep: "c \<notin> set s \<Longrightarrow> split_char c s = [s]"
  by (induction s) auto

lemma split_char_append:
  "split_char c (xs @ c # ys) = split_char c xs @ split_char c ys"
proof (induction xs)
  case Nil
  show ?case by simp
next
  case (Cons x xs)
  obtain f fs where "split_char c xs = f # fs"
    using split_char_not_Nil [of c xs] by (cases "split_char c xs") auto
  with Cons show ?case by simp
qed

lemma last_split_char_append:
  "last (split_char c (xs @ c # ys)) = last (split_char c ys)"
  by (simp add: split_char_append split_char_not_Nil)

lemma task_uid_of_contents_suffix:
  "CHR ''.'' \<notin> set uid \<Longrightarrow> task_uid_of_contents (pre @ ''.'' @ uid) = uid"
  by (simp add: task_uid_of_contents_def last_split_char_append split_char_no_sep)

subsection \<open>Lock record\<close>

text \<open>
  C7. The lock content written for a task is host, process id and task uid joined by dots.
  When the task uid contains no dot, the last dot-delimited field of that content is the
  task uid, whatever the host name and the process id are (also for host and pid texts
  that contain dots themselves), and reading a lock file that holds this content yields
  the task uid.
\<close>
theorem lock_record_round_trip:
  assumes "CHR ''.'' \<notin> set task_uid"
    and "files w lock_file = Some (File (lock_file_contents hostname pid task_uid))"
  shows "task_uid_of_contents (lock_file_contents hostname pid task_uid) = task_uid
         \<and> task_uid_from_lock_file w lock_file = Inr task_uid
         \<and> task_uid_of_contents (host @ ''.'' @ pid_text @ ''.'' @ task_uid) = task_uid"
proof -
  have "host @ ''.'' @ pid_text @ ''.'' @ task_uid = (host @ ''.'' @ pid_text) @ ''.'' @ task_uid"
    by simp
  then have any: "task_uid_of_contents (host @ ''.'' @ pid_text @ ''.'' @ task_uid) = task_uid"
    using assms(1) task_uid_of_contents_suffix by metis
  have "lock_file_contents hostname pid task_uid
          = (hostname @ ''.'' @ format_d pid) @ ''.'' @ task_uid"
    by (simp add: lock_file_contents_def)
  then have "task_uid_of_contents (lock_file_contents hostname pid task_uid) = task_uid"
    using assms(1) task_uid_of_contents_suffix by metis
  then show ?thesis
    using assms(2) any by (simp add: task_uid_from_lock_file_def read_file_to_string_def)
qed

theorem lock_record_round_trip_witness:
  "CHR ''.'' \<notin> set ''ab12''
   \<and> lock_file_contents ''my.host'' 42 ''ab12'' = ''my.host.42.ab12''
   \<and> task_uid_of_contents ''my.host.42.ab12'' = ''ab12''
   \<and> task_uid_from_lock_file
        \<lparr>files = [''/c/m.lock'' \<mapsto> File ''my.host.42.ab12''], clock = 0, calls = []\<rparr>
        ''/c/m.lock'' = Inr ''ab12''
   \<and> task_uid_of_contents ''a.b.4.2.ab12'' = ''ab12''"
proof -
  have c: "lock_file_contents ''my.host'' 42 ''ab12'' = ''my.host.42.ab12''"
    by (simp add: lock_file_contents_def format_d_def dec_nat.simps digit_char_def)
  have d: "CHR ''.'' \<notin> set ''ab12''" by simp
  have f: "files \<lparr>files = [''/c/m.lock'' \<mapsto> File ''my.host.42.ab12''], clock = 0, calls = []\<rparr>
             ''/c/m.lock'' = Some (File (lock_file_contents ''my.host'' 42 ''ab12''))"
    by (simp add: c)
  show ?thesis
    using lock_record_round_trip [OF d f, of "''a.b''" "''4.2''"] c d by simp
qed

subsection \<open>Path derivation\<close>

text \<open>
  C9. The temporary download directory is the absolute module directory followed by a dot,
  the task uid and \<open>.tmp\<close>; the lock file is the absolute module directory followed by
  \<open>.lock\<close>; the descriptor file is the module directory followed by
  \<open>.descriptor.txt\<close>. For one module directory, different task uids give different
  temporary directories.
\<close>
theorem path_derivation:
  "temp_download_dir abs_path module_dir task_uid = abs_path module_dir @ ''.'' @ task_uid @ ''.tmp''
   \<and> lock_filename abs_path module_dir = abs_path module_dir @ ''.lock''
   \<and> module_descriptor_file module_dir = module_dir @ ''.descriptor.txt''
   \<and> (task_uid \<noteq> task_uid' \<longrightarrow>
        temp_download_dir abs_path module_dir task_uid
          \<noteq> temp_download_dir abs_path module_dir task_uid')"
  by (simp add: temp_download_dir_def lock_filename_def module_descriptor_file_def)

theorem path_derivation_witness:
  "''u1'' \<noteq> ''u2''
   \<and> temp_download_dir (\<lambda>p. ''/abs/'' @ p) ''m'' ''u1'' = ''/abs/m.u1.tmp''
   \<and> temp_download_dir (\<lambda>p. ''/abs/'' @ p) ''m'' ''u2'' = ''/abs/m.u2.tmp''
   \<and> temp_download_dir (\<lambda>p. ''/abs/'' @ p) ''m'' ''u1''
        \<noteq> temp_download_dir (\<lambda>p. ''/abs/'' @ p) ''m'' ''u2''
   \<and> lock_filename (\<lambda>p. ''/abs/'' @ p) ''m'' = ''/abs/m.lock''
   \<and> module_descriptor_file ''m'' = ''m.descriptor.txt''"
  using path_derivation [of "\<lambda>p. ''/abs/'' @ p" "''m''" "''u1''" "''u2''"]
        path_derivation [of "\<lambda>p. ''/abs/'' @ p" "''m''" "''u2''" "''u1''"]
  by simp

subsection \<open>Cache directory precedence\<close>

text \<open>
  C10. \<open>tfhub_cache_dir\<close> returns the environment variable when it is non-empty,
  otherwise the flag value when that is set, otherwise the default; when none of the three
  is set it returns the system's temporary directory joined with \<open>tfhub_modules\<close> if
  \<open>use_temp\<close> holds, and no cache directory otherwise.
\<close>
theorem tfhub_cache_dir_precedence:
  "tfhub_cache_dir env flags gettempdir default_cache_dir use_temp =
     (if os_getenv env TFHUB_CACHE_DIR [] \<noteq> [] then Some (os_getenv env TFHUB_CACHE_DIR [])
      else if truthy (flags ''tfhub_cache_dir'') then flags ''tfhub_cache_dir''
      else if truthy default_cache_dir then default_cache_dir
      else if use_temp then Some (os_path_join gettempdir ''tfhub_modules'')
      else default_cache_dir)
   \<and> (os_getenv env TFHUB_CACHE_DIR [] = [] \<and> \<not> truthy (flags ''tfhub_cache_dir'')
        \<and> \<not> truthy default_cache_dir \<and> \<not> use_temp
       \<longrightarrow> \<not> truthy (tfhub_cache_dir env flags gettempdir default_cache_dir use_temp))"
  by (simp add: tfhub_cache_dir_def get_env_setting_def py_or_def Let_def)

theorem tfhub_cache_dir_precedence_witness:
  "os_getenv Map.empty TFHUB_CACHE_DIR [] = [] \<and> \<not> truthy ((\<lambda>f. None) ''tfhub_cache_dir'')
   \<and> \<not> truthy None \<and> \<not> False
   \<and> tfhub_cache_dir Map.empty (\<lambda>f. None) ''/tmp'' None False = None
   \<and> \<not> truthy (tfhub_cache_dir Map.empty (\<lambda>f. None) ''/tmp'' None False)"
  using tfhub_cache_dir_precedence [of Map.empty "\<lambda>f. None" "''/tmp''" None False]
  by (simp add: os_getenv_def)

lemma tfhub_cache_dir_env_first:
  "tfhub_cache_dir [TFHUB_CACHE_DIR \<mapsto> ''/e''] (\<lambda>f. Some ''/f'') ''/tmp'' (Some ''/d'') True = Some ''/e''"
  by (simp add: tfhub_cache_dir_precedence os_getenv_def)
lemma tfhub_cache_dir_temp:
  "tfhub_cache_dir Map.empty (\<lambda>f. None) ''/tmp'' None True = Some ''/tmp/tfhub_modules''"
  by (simp add: tfhub_cache_dir_precedence os_getenv_def os_path_join_def)

subsection \<open>Progress reporter\<close>

lemma print_url: "url (fst (print_download_progress_msg env msg flush dm)) = url dm"
  by (simp add: print_download_progress_msg_def Let_def)

lemma print_one_message:
  "length (filter is_message (snd (print_download_progress_msg env msg flush dm))) = 1"
  by (simp add: print_download_progress_msg_def Let_def)

lemma log_progress_url: "url (fst (log_progress env readable now n dm)) = url dm"
  by (simp add: log_progress_def Let_def print_download_progress_msg_def split: prod.splits)

lemma log_progress_calls_Cons:
  "log_progress_calls env readable ((now, n) # rest) dm =
     (fst (log_progress_calls env readable rest (fst (log_progress env readable now n dm))),
      (now, snd (log_progress env readable now n dm))
      # snd (log_progress_calls env readable rest (fst (log_progress env readable now n dm))))"
  by (simp add: split_beta)

lemma log_progress_calls_url:
  "url (fst (log_progress_calls env readable invocations dm)) = url dm"
proof (induction invocations arbitrary: dm)
  case Nil
  show ?case by simp
next
  case (Cons a invocations)
  obtain now n where a: "a = (now, n)" by (cases a)
  show ?case
    using Cons [of "fst (log_progress env readable now n dm)"] log_progress_url [of env readable now n dm]
    by (simp add: a log_progress_calls_Cons del: log_progress_calls.simps)
qed

lemma log_progress_quiet:
  assumes "interactive_mode env = []"
  shows "snd (log_progress env readable now n dm) =
           (if now - last_progress_msg_print_time dm > 15
            then [Logging_info (''Downloading '' @ url dm @ '': ''
                                @ readable (total_bytes_downloaded dm + n) True)]
            else [])"
    and "last_progress_msg_print_time (fst (log_progress env readable now n dm)) =
           (if now - last_progress_msg_print_time dm > 15 then now
            else last_progress_msg_print_time dm)"
  using assms by (simp_all add: log_progress_def Let_def print_download_progress_msg_def)

lemma log_progress_interactive:
  assumes "interactive_mode env \<noteq> []"
  shows "snd (log_progress env readable now n dm) =
           [Stdout_write (CHR 0x0D # (''Downloading '' @ url dm @ '': ''
                             @ readable (total_bytes_downloaded dm + n) True)
              @ replicate (max_prog_str dm - length (''Downloading '' @ url dm @ '': ''
                             @ readable (total_bytes_downloaded dm + n) True)) CHR '' '')]"
  using assms by (simp add: log_progress_def Let_def print_download_progress_msg_def max_def)

lemma cadence:
  assumes "interactive_mode env = []"
  shows "sorted_wrt (\<lambda>s t. t - s > 15)
           (last_progress_msg_print_time dm
            # emission_times (snd (log_progress_calls env readable invocations dm)))"
proof (induction invocations arbitrary: dm)
  case Nil
  show ?case by (simp add: emission_times_def)
next
  case (Cons a invocations)
  obtain now n where a: "a = (now, n)" by (cases a)
  let ?dm1 = "fst (log_progress env readable now n dm)"
  let ?rest = "emission_times (snd (log_progress_calls env readable invocations ?dm1))"
  have ih: "sorted_wrt (\<lambda>s t. t - s > 15) (last_progress_msg_print_time ?dm1 # ?rest)"
    by (rule Cons)
  show ?case
  proof (cases "now - last_progress_msg_print_time dm > 15")
    case True
    then have l: "last_progress_msg_print_time ?dm1 = now"
      and o: "snd (log_progress env readable now n dm) \<noteq> []"
      using log_progress_quiet [OF assms, of readable now n dm] by simp_all
    have e: "emission_times (snd (log_progress_calls env readable (a # invocations) dm))
               = now # ?rest"
      using o by (simp add: a emission_times_def log_progress_calls_Cons
                    del: log_progress_calls.simps)
    from ih l have "\<forall>t\<in>set ?rest. t - now > 15" and "sorted_wrt (\<lambda>s t. t - s > 15) ?rest"
      by simp_all
    with True show ?thesis
      by (auto simp: e)
  next
    case False
    then have l: "last_progress_msg_print_time ?dm1 = last_progress_msg_print_time dm"
      and o: "snd (log_progress env readable now n dm) = []"
      using log_progress_quiet [OF assms, of readable now n dm] by simp_all
    have e: "emission_times (snd (log_progress_calls env readable (a # invocations) dm))
               = ?rest"
      using o by (simp add: a emission_times_def log_progress_calls_Cons
                    del: log_progress_calls.simps)
    from ih l show ?thesis by (simp add: e)
  qed
qed

lemma completion:
  "download_and_uncompress env readable (invocations, None) dm =
     (Inr (),
      fst (print_download_progress_msg env
             (''Downloaded '' @ url dm @ '', Total size: ''
              @ readable (total_bytes_downloaded
                            (fst (log_progress_calls env readable invocations dm))) True)
             True (fst (log_progress_calls env readable invocations dm))),
      concat (map snd (snd (log_progress_calls env readable invocations dm)))
      @ snd (print_download_progress_msg env
             (''Downloaded '' @ url dm @ '', Total size: ''
              @ readable (total_bytes_downloaded
                            (fst (log_progress_calls env readable invocations dm))) True)
             True (fst (log_progress_calls env readable invocations dm))))"
  using log_progress_calls_url [of env readable invocations dm]
  by (simp add: download_and_uncompress_def split_beta)

text \<open>
  C8. Without interactive mode, the clock readings at which \<open>_log_progress\<close> prints are
  more than 15 seconds apart from each other and from the creation of the download manager,
  for every sequence of calls. In interactive mode every call prints one message. When the
  extraction ends normally, \<open>download_and_uncompress\<close> prints, after the progress
  messages, exactly one summary message, whatever the clock readings were.
\<close>
theorem progress_reporter_cadence:
  "(interactive_mode env = [] \<longrightarrow>
      sorted_wrt (\<lambda>s t. t - s > 15)
        (last_progress_msg_print_time dm
         # emission_times (snd (log_progress_calls env readable invocations dm))))
   \<and> (interactive_mode env' \<noteq> [] \<longrightarrow>
        length (filter is_message (snd (log_progress env' readable now n dm))) = 1)
   \<and> fst (download_and_uncompress env readable (invocations, None) dm) = Inr ()
   \<and> snd (snd (download_and_uncompress env readable (invocations, None) dm)) =
        concat (map snd (snd (log_progress_calls env readable invocations dm)))
        @ snd (print_download_progress_msg env
                 (''Downloaded '' @ url dm @ '', Total size: ''
                  @ readable (total_bytes_downloaded
                                (fst (log_progress_calls env readable invocations dm))) True)
                 True (fst (log_progress_calls env readable invocations dm)))
   \<and> length (filter is_message
        (snd (print_download_progress_msg env
                 (''Downloaded '' @ url dm @ '', Total size: ''
                  @ readable (total_bytes_downloaded
                                (fst (log_progress_calls env readable invocations dm))) True)
                 True (fst (log_progress_calls env readable invocations dm))))) = 1"
proof (intro conjI impI)
  assume "interactive_mode env = []"
  then show "sorted_wrt (\<lambda>s t. t - s > 15)
        (last_progress_msg_print_time dm
         # emission_times (snd (log_progress_calls env readable invocations dm)))"
    by (rule cadence)
next
  assume "interactive_mode env' \<noteq> []"
  then show "length (filter is_message (snd (log_progress env' readable now n dm))) = 1"
    by (simp add: log_progress_interactive)
qed (simp_all add: completion print_one_message)

theorem progress_reporter_cadence_witness:
  "interactive_mode Map.empty = []
   \<and> interactive_mode [TFHUB_DOWNLOAD_PROGRESS \<mapsto> ''1''] \<noteq> []
   \<and> emission_times (snd (log_progress_calls Map.empty (\<lambda>n b. format_d n @ ''B'')
        [(10, 100), (16, 100), (20, 50), (32, 10)] (init_download_manager ''u'' 0))) = [16, 32]
   \<and> sorted_wrt (\<lambda>s t. t - s > 15) [0, 16, 32 :: real]
   \<and> length (filter is_message
        (snd (log_progress [TFHUB_DOWNLOAD_PROGRESS \<mapsto> ''1''] (\<lambda>n b. format_d n @ ''B'')
                1 100 (init_download_manager ''u'' 0)))) = 1
   \<and> download_and_uncompress Map.empty (\<lambda>n b. format_d n @ ''B'')
        ([(10, 100), (16, 100), (20, 50), (32, 10)], None) (init_download_manager ''u'' 0) =
       (Inr (),
        \<lparr>url = ''u'', last_progress_msg_print_time = 32, total_bytes_downloaded = 260,
         max_prog_str = 0\<rparr>,
        [Logging_info ''Downloading u: 200B'', Logging_info ''Downloading u: 260B'',
         Logging_info ''Downloaded u, Total size: 260B''])"
proof -
  have q: "interactive_mode Map.empty = []"
    by (simp add: interactive_mode_def os_getenv_def)
  have i: "interactive_mode [TFHUB_DOWNLOAD_PROGRESS \<mapsto> ''1''] \<noteq> []"
    by (simp add: interactive_mode_def os_getenv_def)
  have r: "log_progress_calls Map.empty (\<lambda>n b. format_d n @ ''B'')
             [(10, 100), (16, 100), (20, 50), (32, 10)] (init_download_manager ''u'' 0) =
           (\<lparr>url = ''u'', last_progress_msg_print_time = 32, total_bytes_downloaded = 260,
             max_prog_str = 0\<rparr>,
            [(10, []), (16, [Logging_info ''Downloading u: 200B'']), (20, []),
             (32, [Logging_info ''Downloading u: 260B''])])"
    by (simp add: log_progress_def print_download_progress_msg_def q
        init_download_manager_def format_d_def dec_nat.simps digit_char_def Let_def)
  have d: "download_and_uncompress Map.empty (\<lambda>n b. format_d n @ ''B'')
        ([(10, 100), (16, 100), (20, 50), (32, 10)], None) (init_download_manager ''u'' 0) =
       (Inr (),
        \<lparr>url = ''u'', last_progress_msg_print_time = 32, total_bytes_downloaded = 260,
         max_prog_str = 0\<rparr>,
        [Logging_info ''Downloading u: 200B'', Logging_info ''Downloading u: 260B'',
         Logging_info ''Downloaded u, Total size: 260B''])"
    by (simp add: download_and_uncompress_def r print_download_progress_msg_def q
             del: log_progress_calls.simps)
       (simp add: format_d_def dec_nat.simps digit_char_def)
  have e: "emission_times (snd (log_progress_calls Map.empty (\<lambda>n b. format_d n @ ''B'')
        [(10, 100), (16, 100), (20, 50), (32, 10)] (init_download_manager ''u'' 0))) = [16, 32]"
    by (simp add: r emission_times_def del: log_progress_calls.simps)
  show ?thesis
    using progress_reporter_cadence [of Map.empty "init_download_manager ''u'' 0"
        "\<lambda>n b. format_d n @ ''B''" "[(10, 100), (16, 100), (20, 50), (32, 10)]"
        "[TFHUB_DOWNLOAD_PROGRESS \<mapsto> ''1'']" 1 100] q i d e
    by (simp del: log_progress_calls.simps)
qed

subsection \<open>Invalid archives\<close>

text \<open>
  C6, as the code has it. When the extraction ends with \<open>tarfile.ReadError\<close>,
  \<open>download_and_uncompress\<close> raises \<open>IOError\<close>, Python's generic I/O error class, with
  the message that the URL does not appear to be a valid module; no exception class of its
  own marks the invalid archive.
\<close>
theorem invalid_archive_raises_IOError:
  "fst (download_and_uncompress env readable (invocations, Some ReadError) dm) =
     Inl (IOError (url dm @ '' does not appear to be a valid module.''))"
  using log_progress_calls_url [of env readable invocations dm]
  by (simp add: download_and_uncompress_def split_beta)

text \<open>
  C6 as stated asks for an error kind that is not a generic I/O error. At this input the
  archive does not parse and the exception raised is an \<open>IOError\<close>.
\<close>
theorem invalid_artifact_counterexample:
  "raises_IOError
     (fst (download_and_uncompress Map.empty (\<lambda>n b. format_d n @ ''B'')
             ([(10, 100)], Some ReadError)
             (init_download_manager ''http://example.com/m.tar.gz'' 0)))"
  by (simp add: download_and_uncompress_def log_progress_def interactive_mode_def
      os_getenv_def init_download_manager_def Let_def)

subsection \<open>Cleanup\<close>

lemma tmp_dir_not_lock_file:
  "temp_download_dir abs_path module_dir task_uid \<noteq> lock_filename abs_path module_dir"
proof
  assume "temp_download_dir abs_path module_dir task_uid = lock_filename abs_path module_dir"
  then have "task_uid @ ''.tmp'' = ''lock''"
    by (simp add: temp_download_dir_def lock_filename_def)
  then have "last (task_uid @ ''.tmp'') = last ''lock''"
    by (rule arg_cong)
  then show False by simp
qed

lemma lock_file_contents_not_Nil: "lock_file_contents hostname pid task_uid \<noteq> []"
  by (simp add: lock_file_contents_def)

lemma cleanup_result:
  assumes "no_directory_at (files w) lock_file" and "tmp_dir \<noteq> lock_file"
    and "lock_contents \<noteq> []"
  shows "cleanup tmp_dir lock_file lock_contents w =
           (Inr (),
            w\<lparr>files := (if files w lock_file = Some (File lock_contents)
                         then (files w)(tmp_dir := None, lock_file := None)
                         else (files w)(tmp_dir := None)),
              calls := calls w @ Call_DeleteRecursively tmp_dir
                         # (if files w lock_file = Some (File lock_contents)
                            then [Call_Remove lock_file] else [])\<rparr>)"
proof (cases "files w lock_file")
  case None
  with assms show ?thesis
    by (cases "files w tmp_dir")
       (auto simp: cleanup_def gfile_DeleteRecursively_def read_file_to_string_def called_def
                   gfile_Remove_def Let_def fun_upd_idem)
next
  case (Some n)
  with assms obtain content where n: "files w lock_file = Some (File content)"
    by (cases n) (auto simp: no_directory_at_def)
  with assms show ?thesis
    by (cases "files w tmp_dir")
       (auto simp: cleanup_def gfile_DeleteRecursively_def read_file_to_string_def called_def
                   gfile_Remove_def Let_def fun_upd_idem)
qed

subsection \<open>Staleness monitor\<close>




lemma files_time_sleep [simp]: "files (time_sleep d w) = files w"
  by (simp add: time_sleep_def called_def)

lemma clock_time_sleep [simp]: "clock (time_sleep d w) = clock w + d"
  by (simp add: time_sleep_def called_def)

lemma files_removed [simp]: "files (removed path w) = (files w)(path := None)"
  by (simp add: removed_def)










subsection \<open>Lock acquisition\<close>

lemma acquire_loop_write_fails:
  assumes "atomic_write_string_to_file P (files w) lock_file lock_contents False = Inl (OpError c)"
  shows "acquire_loop P (Suc n) handle module_dir lock_file lock_contents timeout w =
           (if permanent c
            then Some (Failed (OpError c), called (Call_Write lock_file lock_contents False) w)
            else (case wait_for_lock_to_disappear P n handle lock_file timeout
                         (called (Call_Write lock_file lock_contents False) w) of
                    None \<Rightarrow> None
                  | Some (Inl e, w2) \<Rightarrow> Some (Failed e, w2)
                  | Some (Inr u, w2) \<Rightarrow>
                      acquire_loop P n handle module_dir lock_file lock_contents timeout w2))"
  using assms by (simp add: lock_try_def Let_def)

lemma atomic_download_write_fails:
  assumes "atomic_write_string_to_file P (files w)
             (lock_filename (absolute_path P) module_dir)
             (lock_file_contents (gethostname P) (getpid P) (uuid4_hex P)) False
           = Inl (OpError c)"
    and "permanent c"
    and "check_module_exists w module_dir = Inr False"
    and "no_directory_at (files w) (lock_filename (absolute_path P) module_dir)"
  shows "atomic_download P (Suc n) handle download_fn module_dir timeout w =
           Some (Inl (OpError c),
                 w\<lparr>files :=
                     (if files w (lock_filename (absolute_path P) module_dir)
                         = Some (File (lock_file_contents (gethostname P) (getpid P) (uuid4_hex P)))
                      then (files w)
                             (temp_download_dir (absolute_path P) module_dir (uuid4_hex P) := None,
                              lock_filename (absolute_path P) module_dir := None)
                      else (files w)
                             (temp_download_dir (absolute_path P) module_dir (uuid4_hex P) := None)),
                    calls := calls w
                      @ [Call_Write (lock_filename (absolute_path P) module_dir)
                           (lock_file_contents (gethostname P) (getpid P) (uuid4_hex P)) False,
                         Call_DeleteRecursively
                           (temp_download_dir (absolute_path P) module_dir (uuid4_hex P))]
                      @ (if files w (lock_filename (absolute_path P) module_dir)
                            = Some (File (lock_file_contents (gethostname P) (getpid P) (uuid4_hex P)))
                         then [Call_Remove (lock_filename (absolute_path P) module_dir)]
                         else [])\<rparr>)"
proof -
  let ?lf = "lock_filename (absolute_path P) module_dir"
  let ?lc = "lock_file_contents (gethostname P) (getpid P) (uuid4_hex P)"
  let ?tmp = "temp_download_dir (absolute_path P) module_dir (uuid4_hex P)"
  let ?w0 = "called (Call_Write ?lf ?lc False) w"
  have a: "acquire_loop P (Suc n) handle module_dir ?lf ?lc timeout w
             = Some (Failed (OpError c), ?w0)"
    using acquire_loop_write_fails [OF assms(1)] assms(2) by simp
  have "no_directory_at (files ?w0) ?lf"
    using assms(4) by (simp add: called_def)
  then have c: "cleanup ?tmp ?lf ?lc ?w0 =
           (Inr (),
            ?w0\<lparr>files := (if files ?w0 ?lf = Some (File ?lc)
                         then (files ?w0)(?tmp := None, ?lf := None)
                         else (files ?w0)(?tmp := None)),
              calls := calls ?w0 @ Call_DeleteRecursively ?tmp
                         # (if files ?w0 ?lf = Some (File ?lc)
                            then [Call_Remove ?lf] else [])\<rparr>)"
    by (rule cleanup_result) (simp_all add: tmp_dir_not_lock_file lock_file_contents_not_Nil)
  show ?thesis
    unfolding atomic_download_def Let_def assms(3) a
    by (simp add: c del: acquire_loop.simps) (simp add: called_def)
qed

lemma lock_except_not_Acquired [simp]: "lock_except e \<noteq> Acquired"
  by (cases e) auto

lemma lock_try_Acquired:
  assumes "lock_try P module_dir lock_file lock_contents w = (Acquired, w1)"
  shows "files w1 module_dir = None"
  using assms
  by (auto simp: lock_try_def Let_def gfile_Exists_def gfile_DeleteRecursively_def called_def
           split: sum.splits bool.splits if_splits option.splits)

lemma lock_try_renames:
  assumes "lock_try P module_dir lock_file lock_contents w = (a, w1)"
  shows "filter is_rename (calls w1) = filter is_rename (calls w)"
  using assms
  by (auto simp: lock_try_def Let_def gfile_Exists_def gfile_DeleteRecursively_def called_def
           split: sum.splits bool.splits if_splits option.splits)

lemma wait_try_renames:
  assumes "wait_try P lock_file timeout vars w = (ctl, w')"
  shows "filter is_rename (calls w') = filter is_rename (calls w)"
  using assms
  by (auto simp: wait_try_def gfile_Remove_def called_def Let_def
           split: prod.splits sum.splits if_splits option.splits node.splits)

lemma calls_time_sleep [simp]: "calls (time_sleep d w) = calls w @ [Call_Sleep d]"
  by (simp add: time_sleep_def called_def)

lemma wait_loop_renames:
  "wait_loop P n lock_file timeout vars w = Some (r, w')
   \<Longrightarrow> filter is_rename (calls w') = filter is_rename (calls w)"
proof (induction n arbitrary: vars w)
  case 0
  then show ?case by simp
next
  case (Suc n)
  obtain ctl w1 where t: "wait_try P lock_file timeout vars w = (ctl, w1)"
    by (cases "wait_try P lock_file timeout vars w")
  note r1 = wait_try_renames [OF t]
  show ?case
  proof (cases "gfile_Exists w lock_file")
    case False
    with Suc.prems show ?thesis by simp
  next
    case True
    show ?thesis
    proof (cases ctl)
      case Break
      with Suc.prems True t r1 show ?thesis by auto
    next
      case (Continue vars')
      with Suc.prems True t
      have "wait_loop P n lock_file timeout vars' (time_sleep 5 w1) = Some (r, w')" by simp
      from Suc.IH [OF this] r1 show ?thesis by simp
    next
      case (Raised e)
      show ?thesis
      proof (cases "e = OpError NotFoundError")
        case True
        with Suc.prems \<open>gfile_Exists w lock_file\<close> t Raised
        have "wait_loop P n lock_file timeout vars (time_sleep 5 w1) = Some (r, w')" by simp
        from Suc.IH [OF this] r1 show ?thesis by simp
      next
        case False
        with Suc.prems \<open>gfile_Exists w lock_file\<close> t Raised r1 show ?thesis by auto
      qed
    qed
  qed
qed

lemma acquire_loop_cases:
  assumes "acquire_loop P (Suc n) handle module_dir lock_file lock_contents timeout w
             = Some (a, w')"
  obtains (direct) "lock_try P module_dir lock_file lock_contents w = (a, w')" "a \<noteq> Retry"
  | (wait_failed) w1 e where "lock_try P module_dir lock_file lock_contents w = (Retry, w1)"
       "wait_for_lock_to_disappear P n handle lock_file timeout w1 = Some (Inl e, w')"
       "a = Failed e"
  | (again) w1 w2 where "lock_try P module_dir lock_file lock_contents w = (Retry, w1)"
       "wait_for_lock_to_disappear P n handle lock_file timeout w1 = Some (Inr (), w2)"
       "acquire_loop P n handle module_dir lock_file lock_contents timeout w2 = Some (a, w')"
proof -
  obtain a1 w1 where t: "lock_try P module_dir lock_file lock_contents w = (a1, w1)"
    by (cases "lock_try P module_dir lock_file lock_contents w")
  show thesis
  proof (cases "a1 = Retry")
    case False
    with assms t have "a = a1 \<and> w' = w1" by (cases a1) auto
    with t False direct show thesis by simp
  next
    case True
    show thesis
    proof (cases "wait_for_lock_to_disappear P n handle lock_file timeout w1")
      case None
      with assms t True show thesis by simp
    next
      case (Some rw)
      obtain r w2 where rw: "rw = (r, w2)" by (cases rw)
      show thesis
      proof (cases r)
        case (Inl e)
        with assms t True Some rw wait_failed show thesis by auto
      next
        case (Inr u)
        with assms t True Some rw again show thesis by auto
      qed
    qed
  qed
qed

lemma acquire_loop_Acquired:
  "acquire_loop P n handle module_dir lock_file lock_contents timeout w = Some (Acquired, w1)
   \<Longrightarrow> files w1 module_dir = None"
proof (induction n arbitrary: w)
  case 0
  then show ?case by simp
next
  case (Suc n)
  from Suc.prems show ?case
  proof (cases rule: acquire_loop_cases)
    case direct
    then show ?thesis by (simp add: lock_try_Acquired)
  next
    case (wait_failed w1 e)
    then show ?thesis by simp
  next
    case (again w1 w2)
    then show ?thesis using Suc.IH by blast
  qed
qed

lemma acquire_loop_renames:
  "acquire_loop P n handle module_dir lock_file lock_contents timeout w = Some (a, w1)
   \<Longrightarrow> filter is_rename (calls w1) = filter is_rename (calls w)"
proof (induction n arbitrary: w)
  case 0
  then show ?case by simp
next
  case (Suc n)
  from Suc.prems show ?case
  proof (cases rule: acquire_loop_cases)
    case direct
    then show ?thesis by (simp add: lock_try_renames)
  next
    case (wait_failed w1 e)
    then show ?thesis
      using lock_try_renames [of P module_dir lock_file lock_contents w Retry w1]
        wait_loop_renames [of P n lock_file timeout _ w1 "Inl e" w1a for w1a]
      by (simp add: wait_for_lock_to_disappear_def)
  next
    case (again w1 w2)
    then show ?thesis
      using lock_try_renames [of P module_dir lock_file lock_contents w Retry w1]
        wait_loop_renames [of P n lock_file timeout _ w1 "Inr ()" w2] Suc.IH [of w2]
      by (simp add: wait_for_lock_to_disappear_def)
  qed
qed

subsection \<open>Download and publication\<close>

lemma gfile_MakeDirs_ok:
  assumes "gfile_MakeDirs w path = (Inr (), w')"
  shows "calls w' = calls w @ [Call_MakeDirs path]"
    and "clock w' = clock w"
    and "q \<noteq> path \<Longrightarrow> files w' q = files w q"
  using assms
  by (auto simp: gfile_MakeDirs_def called_def Let_def split: option.splits node.splits)

lemma write_module_descriptor_file_renames:
  assumes "write_module_descriptor_file P handle module_dir w = (r, w')"
  shows "filter is_rename (calls w') = filter is_rename (calls w)"
  using assms
  by (auto simp: write_module_descriptor_file_def called_def Let_def split: sum.splits)

subsection \<open>Cache population protocol\<close>

text \<open>
  C2. When the module directory exists and is non-empty before the call,
  \<open>atomic_download\<close> returns it at once, whatever the fuel, the backend and the download
  callback are: the world is unchanged, so no lock file and no temporary directory were
  created and the callback was not run.
\<close>
theorem populated_module_dir_returns_immediately:
  assumes "files w module_dir = Some (Dir entries)" and "entries \<noteq> []"
  shows "atomic_download P fuel handle download_fn module_dir lock_file_timeout_sec w
           = Some (Inr module_dir, w)"
  using assms
  by (simp add: atomic_download_def check_module_exists_def gfile_Exists_def
                gfile_ListDirectory_def Let_def)

theorem populated_module_dir_returns_immediately_witness:
  "files populated_world ''/c/m'' = Some (Dir [(''saved_model.pb'', File ''abc'')])
   \<and> [(''saved_model.pb'', File ''abc'')] \<noteq> []
   \<and> atomic_download denied_proc 0 ''h'' failing_download ''/c/m'' 600 populated_world
       = Some (Inr ''/c/m'', populated_world)"
proof -
  have f: "files populated_world ''/c/m'' = Some (Dir [(''saved_model.pb'', File ''abc'')])"
    by (simp add: populated_world_def)
  have n: "[(''saved_model.pb'', File ''abc'')] \<noteq> []"
    by simp
  show ?thesis
    using populated_module_dir_returns_immediately [OF f n] f by simp
qed

text \<open>
  C5. Suppose the exclusive write of the lock file fails with a storage error. If its
  class is \<open>NotFoundError\<close>, \<open>PermissionDeniedError\<close>, \<open>UnauthenticatedError\<close>,
  \<open>ResourceExhaustedError\<close>, \<open>InternalError\<close>, \<open>InvalidArgumentError\<close> or
  \<open>UnimplementedError\<close>, the acquisition loop ends at once with that error, without
  waiting, in whichever attempt this happens; for a call that was not on the fast path and
  whose lock path holds no directory, \<open>atomic_download\<close> then raises that error after
  the \<open>finally\<close> clause, the clock has not moved and the only calls made are the write,
  the deletion of the temporary directory and, if the lock file holds this task's content,
  its removal. If its class is one of the nine others, the error is swallowed: the loop
  waits for the lock to disappear and makes its next attempt.
\<close>
theorem permanent_lock_errors_abort:
  fixes P :: proc and module_dir :: string
  defines "lock_file \<equiv> lock_filename (absolute_path P) module_dir"
    and "lock_contents \<equiv> lock_file_contents (gethostname P) (getpid P) (uuid4_hex P)"
    and "tmp_dir \<equiv> temp_download_dir (absolute_path P) module_dir (uuid4_hex P)"
  assumes "atomic_write_string_to_file P (files w) lock_file lock_contents False
             = Inl (OpError c)"
  shows "(c \<in> {NotFoundError, PermissionDeniedError, UnauthenticatedError,
                ResourceExhaustedError, InternalError, InvalidArgumentError,
                UnimplementedError} \<longrightarrow>
            acquire_loop P (Suc n) handle module_dir lock_file lock_contents timeout w =
              Some (Failed (OpError c), called (Call_Write lock_file lock_contents False) w))
         \<and> (c \<in> {CancelledError, UnknownError, DeadlineExceededError, AlreadyExistsError,
                   FailedPreconditionError, AbortedError, OutOfRangeError, UnavailableError,
                   DataLossError} \<longrightarrow>
            acquire_loop P (Suc n) handle module_dir lock_file lock_contents timeout w =
              (case wait_for_lock_to_disappear P n handle lock_file timeout
                      (called (Call_Write lock_file lock_contents False) w) of
                 None \<Rightarrow> None
               | Some (Inl e, w2) \<Rightarrow> Some (Failed e, w2)
               | Some (Inr u, w2) \<Rightarrow>
                   acquire_loop P n handle module_dir lock_file lock_contents timeout w2))
         \<and> (c \<in> {NotFoundError, PermissionDeniedError, UnauthenticatedError,
                   ResourceExhaustedError, InternalError, InvalidArgumentError,
                   UnimplementedError}
              \<and> check_module_exists w module_dir = Inr False
              \<and> no_directory_at (files w) lock_file \<longrightarrow>
            atomic_download P (Suc n) handle download_fn module_dir timeout w =
              Some (Inl (OpError c),
                    w\<lparr>files :=
                        (if files w lock_file = Some (File lock_contents)
                         then (files w)(tmp_dir := None, lock_file := None)
                         else (files w)(tmp_dir := None)),
                      calls := calls w
                        @ [Call_Write lock_file lock_contents False,
                           Call_DeleteRecursively tmp_dir]
                        @ (if files w lock_file = Some (File lock_contents)
                           then [Call_Remove lock_file] else [])\<rparr>))"
proof -
  have seven: "c \<in> {NotFoundError, PermissionDeniedError, UnauthenticatedError,
                ResourceExhaustedError, InternalError, InvalidArgumentError,
                UnimplementedError} \<Longrightarrow> permanent c"
    by auto
  have nine: "c \<in> {CancelledError, UnknownError, DeadlineExceededError, AlreadyExistsError,
                   FailedPreconditionError, AbortedError, OutOfRangeError, UnavailableError,
                   DataLossError} \<Longrightarrow> \<not> permanent c"
    by auto
  show ?thesis
    using acquire_loop_write_fails [OF assms(4), of n handle module_dir timeout]
      atomic_download_write_fails [of P w module_dir c n handle download_fn timeout] assms(4)
      seven nine
    unfolding lock_file_def lock_contents_def tmp_dir_def
    by (intro conjI impI) (simp_all del: acquire_loop.simps)
qed

theorem permanent_lock_errors_abort_witness:
  "atomic_write_string_to_file denied_proc (files empty_world)
      (lock_filename (absolute_path denied_proc) ''/c/m'')
      (lock_file_contents (gethostname denied_proc) (getpid denied_proc) (uuid4_hex denied_proc))
      False = Inl (OpError PermissionDeniedError)
   \<and> PermissionDeniedError \<in> {NotFoundError, PermissionDeniedError, UnauthenticatedError,
         ResourceExhaustedError, InternalError, InvalidArgumentError, UnimplementedError}
   \<and> check_module_exists empty_world ''/c/m'' = Inr False
   \<and> no_directory_at (files empty_world) (lock_filename (absolute_path denied_proc) ''/c/m'')
   \<and> atomic_download denied_proc (Suc 0) ''h'' complete_download ''/c/m'' 600 empty_world =
       Some (Inl (OpError PermissionDeniedError),
             \<lparr>files = Map.empty, clock = 0,
              calls = [Call_Write ''/c/m.lock'' ''host.42.u1'' False,
                       Call_DeleteRecursively ''/c/m.u1.tmp'']\<rparr>)
   \<and> acquire_loop (failing_proc UnimplementedError) (Suc 0) ''h'' ''/c/m''
        ''/c/m.lock'' ''host.42.u1'' 600 empty_world =
       Some (Failed (OpError UnimplementedError),
             \<lparr>files = Map.empty, clock = 0,
              calls = [Call_Write ''/c/m.lock'' ''host.42.u1'' False]\<rparr>)
   \<and> atomic_write_string_to_file example_proc (files locked_world)
      (lock_filename (absolute_path example_proc) ''/c/m'')
      (lock_file_contents (gethostname example_proc) (getpid example_proc) (uuid4_hex example_proc))
      False = Inl (OpError AlreadyExistsError)
   \<and> AlreadyExistsError \<in> {CancelledError, UnknownError, DeadlineExceededError,
         AlreadyExistsError, FailedPreconditionError, AbortedError, OutOfRangeError,
         UnavailableError, DataLossError}
   \<and> acquire_loop example_proc (Suc 6) ''h'' ''/c/m'' ''/c/m.lock'' ''host.42.u1'' 7
        locked_world =
       Some (Acquired,
             \<lparr>files = [''/c/m.lock'' \<mapsto> File ''host.42.u1''], clock = 25,
              calls = [Call_Write ''/c/m.lock'' ''host.42.u1'' False, Call_Sleep 5,
                       Call_Sleep 5, Call_Sleep 5, Call_Sleep 5, Call_Remove ''/c/m.lock'',
                       Call_Sleep 5, Call_Write ''/c/m.lock'' ''host.42.u1'' False]\<rparr>)"
proof -
  have names: "lock_filename (\<lambda>p. p) ''/c/m'' = ''/c/m.lock''"
    "lock_file_contents ''host'' 42 ''u1'' = ''host.42.u1''"
    "temp_download_dir (\<lambda>p. p) ''/c/m'' ''u1'' = ''/c/m.u1.tmp''"
    by (simp_all add: lock_filename_def lock_file_contents_def temp_download_dir_def
        format_d_def dec_nat.simps digit_char_def)
  have d: "atomic_write_string_to_file denied_proc (files empty_world)
      (lock_filename (absolute_path denied_proc) ''/c/m'')
      (lock_file_contents (gethostname denied_proc) (getpid denied_proc) (uuid4_hex denied_proc))
      False = Inl (OpError PermissionDeniedError)"
    by (simp add: denied_proc_def)
  have u: "atomic_write_string_to_file (failing_proc UnimplementedError) (files empty_world)
      (lock_filename (absolute_path (failing_proc UnimplementedError)) ''/c/m'')
      (lock_file_contents (gethostname (failing_proc UnimplementedError))
         (getpid (failing_proc UnimplementedError)) (uuid4_hex (failing_proc UnimplementedError)))
      False = Inl (OpError UnimplementedError)"
    by (simp add: failing_proc_def)
  have x: "atomic_write_string_to_file example_proc (files locked_world)
      (lock_filename (absolute_path example_proc) ''/c/m'')
      (lock_file_contents (gethostname example_proc) (getpid example_proc) (uuid4_hex example_proc))
      False = Inl (OpError AlreadyExistsError)"
    by (simp add: example_proc_def locked_world_def write_string_exclusive_def names)
  have c: "check_module_exists empty_world ''/c/m'' = Inr False"
    by (simp add: check_module_exists_def gfile_Exists_def empty_world_def)
  have l: "no_directory_at (files empty_world) (lock_filename (absolute_path denied_proc) ''/c/m'')"
    by (simp add: no_directory_at_def empty_world_def)
  note t1 = permanent_lock_errors_abort [OF d, of 0 "''h''" 600 complete_download]
  note t2 = permanent_lock_errors_abort [OF x, of 6 "''h''" 7 complete_download]
  note t3 = permanent_lock_errors_abort [OF u, of 0 "''h''" 600 complete_download]
  have a: "atomic_download denied_proc (Suc 0) ''h'' complete_download ''/c/m'' 600 empty_world =
       Some (Inl (OpError PermissionDeniedError),
             \<lparr>files = Map.empty, clock = 0,
              calls = [Call_Write ''/c/m.lock'' ''host.42.u1'' False,
                       Call_DeleteRecursively ''/c/m.u1.tmp'']\<rparr>)"
    using t1 c l
    by (simp add: denied_proc_def example_proc_def names empty_world_def
             del: acquire_loop.simps)
  have b: "acquire_loop (failing_proc UnimplementedError) (Suc 0) ''h'' ''/c/m''
        ''/c/m.lock'' ''host.42.u1'' 600 empty_world =
       Some (Failed (OpError UnimplementedError),
             \<lparr>files = Map.empty, clock = 0,
              calls = [Call_Write ''/c/m.lock'' ''host.42.u1'' False]\<rparr>)"
    using t3
    by (simp add: failing_proc_def example_proc_def names empty_world_def called_def
             del: acquire_loop.simps)
  have w: "wait_for_lock_to_disappear example_proc 6 ''h'' ''/c/m.lock'' 7
             (called (Call_Write ''/c/m.lock'' ''host.42.u1'' False) locked_world) =
           Some (Inr (),
             \<lparr>files = (files locked_world)(''/c/m.lock'' := None), clock = 25,
              calls = [Call_Write ''/c/m.lock'' ''host.42.u1'' False, Call_Sleep 5,
                       Call_Sleep 5, Call_Sleep 5, Call_Sleep 5, Call_Remove ''/c/m.lock'',
                       Call_Sleep 5]\<rparr>)"
    by (simp add: eval_nat_numeral example_proc_def locked_world_def gfile_Exists_def
        called_def read_file_to_string_def wait_for_lock_to_disappear_def
        wait_try_def locked_tmp_dir_size_def task_uid_from_lock_file_def task_uid_of_contents_def
        lock_module_dir_def endswith_def dir_size_def temp_download_dir_def gfile_Remove_def
        time_sleep_def Let_def)
  have g: "acquire_loop example_proc 6 ''h'' ''/c/m'' ''/c/m.lock'' ''host.42.u1'' 7
             \<lparr>files = (files locked_world)(''/c/m.lock'' := None), clock = 25,
              calls = [Call_Write ''/c/m.lock'' ''host.42.u1'' False, Call_Sleep 5,
                       Call_Sleep 5, Call_Sleep 5, Call_Sleep 5, Call_Remove ''/c/m.lock'',
                       Call_Sleep 5]\<rparr> =
       Some (Acquired,
             \<lparr>files = [''/c/m.lock'' \<mapsto> File ''host.42.u1''], clock = 25,
              calls = [Call_Write ''/c/m.lock'' ''host.42.u1'' False, Call_Sleep 5,
                       Call_Sleep 5, Call_Sleep 5, Call_Sleep 5, Call_Remove ''/c/m.lock'',
                       Call_Sleep 5, Call_Write ''/c/m.lock'' ''host.42.u1'' False]\<rparr>)"
    by (simp add: eval_nat_numeral lock_try_def example_proc_def locked_world_def
        write_string_exclusive_def check_module_exists_def gfile_Exists_def called_def Let_def)
  have r: "acquire_loop example_proc (Suc 6) ''h'' ''/c/m'' ''/c/m.lock'' ''host.42.u1'' 7
        locked_world =
       Some (Acquired,
             \<lparr>files = [''/c/m.lock'' \<mapsto> File ''host.42.u1''], clock = 25,
              calls = [Call_Write ''/c/m.lock'' ''host.42.u1'' False, Call_Sleep 5,
                       Call_Sleep 5, Call_Sleep 5, Call_Sleep 5, Call_Remove ''/c/m.lock'',
                       Call_Sleep 5, Call_Write ''/c/m.lock'' ''host.42.u1'' False]\<rparr>)"
    using t2 w g
    unfolding example_proc_def
    by (simp add: names del: acquire_loop.simps)
  show ?thesis
    using d x c l a b r by (simp del: acquire_loop.simps)
qed

lemma cleanup_directory_lock:
  assumes "files w lock_file = Some (Dir entries)" and "tmp_dir \<noteq> lock_file"
  shows "cleanup tmp_dir lock_file lock_contents w =
           (Inl (OpError FailedPreconditionError),
            w\<lparr>files := (files w)(tmp_dir := None),
              calls := calls w @ [Call_DeleteRecursively tmp_dir]\<rparr>)"
  using assms
  by (cases "files w tmp_dir")
     (auto simp: cleanup_def gfile_DeleteRecursively_def read_file_to_string_def called_def
                 Let_def fun_upd_idem)

text \<open>
  C1, as the code has it. Suppose the call was not on the fast path, the lock was acquired
  (after any number of waits), the temporary directory was created and the download
  callback raised \<open>e\<close>, leaving the storage \<open>fs\<close>. Then \<open>atomic_download\<close> raises: it
  raises \<open>e\<close> unless the lock path holds a directory, in which case reading it in the
  \<open>finally\<close> clause raises a storage error that takes the place of \<open>e\<close>. Afterwards the
  temporary directory is gone, the lock file is gone if it held this task's content and is
  otherwise as the download left it (a missing or foreign lock is passed over, and the only
  calls after the download are the deletion of the temporary directory and, in the first
  case only, the removal of the lock file), and every other path is as the download left
  it. The module directory was absent when the lock was acquired and when the callback
  started, and \<open>atomic_download\<close> does not create it: it is absent afterwards unless it
  was published while the download ran.
\<close>
theorem download_failure_cleanup:
  fixes P :: proc and module_dir :: string
  defines "lock_file \<equiv> lock_filename (absolute_path P) module_dir"
    and "lock_contents \<equiv> lock_file_contents (gethostname P) (getpid P) (uuid4_hex P)"
    and "tmp_dir \<equiv> temp_download_dir (absolute_path P) module_dir (uuid4_hex P)"
  assumes N: "check_module_exists w module_dir = Inr False"
    and A: "acquire_loop P fuel handle module_dir lock_file lock_contents timeout w
              = Some (Acquired, w1)"
    and M: "gfile_MakeDirs w1 tmp_dir = (Inr (), w2)"
    and D: "download_fn handle tmp_dir (files w2) = (Inl e, fs)"
  shows "\<exists>w'. atomic_download P fuel handle download_fn module_dir timeout w
                 = Some (if no_directory_at fs lock_file then Inl e
                         else Inl (OpError FailedPreconditionError), w')
           \<and> files w' = (if fs lock_file = Some (File lock_contents)
                          then fs(tmp_dir := None, lock_file := None)
                          else fs(tmp_dir := None))
           \<and> calls w' = calls w2 @ Call_Download handle tmp_dir # Call_DeleteRecursively tmp_dir
                # (if fs lock_file = Some (File lock_contents) then [Call_Remove lock_file]
                   else [])
           \<and> files w' tmp_dir = None
           \<and> files w' lock_file =
                (if fs lock_file = Some (File lock_contents) then None else fs lock_file)
           \<and> files w1 module_dir = None
           \<and> (module_dir \<noteq> tmp_dir \<longrightarrow> files w2 module_dir = None)
           \<and> (module_dir \<noteq> tmp_dir \<and> module_dir \<noteq> lock_file \<longrightarrow>
                files w' module_dir = fs module_dir)
           \<and> (fs module_dir = files w2 module_dir \<longrightarrow> files w' module_dir = None)"
proof -
  let ?own = "fs lock_file = Some (File lock_contents)"
  let ?w3 = "called (Call_Download handle tmp_dir) (w2\<lparr>files := fs\<rparr>)"
  let ?w4 = "?w3\<lparr>files := (if ?own then fs(tmp_dir := None, lock_file := None)
                         else fs(tmp_dir := None)),
              calls := calls ?w3 @ Call_DeleteRecursively tmp_dir
                         # (if ?own then [Call_Remove lock_file] else [])\<rparr>"
  let ?r = "if no_directory_at fs lock_file then Inl e
            else Inl (OpError FailedPreconditionError) :: exn + string"
  have ne: "tmp_dir \<noteq> lock_file"
    unfolding tmp_dir_def lock_file_def by (rule tmp_dir_not_lock_file)
  have dp: "download_and_publish P handle download_fn module_dir tmp_dir w1 = (Inl e, ?w3)"
    by (simp add: download_and_publish_def M D)
  have f3: "files ?w3 = fs"
    by (simp add: called_def)
  have c: "cleanup tmp_dir lock_file lock_contents ?w3 =
             (if no_directory_at fs lock_file then Inr ()
              else Inl (OpError FailedPreconditionError), ?w4)"
  proof (cases "no_directory_at fs lock_file")
    case True
    then have "no_directory_at (files ?w3) lock_file"
      by (simp add: f3)
    then have "cleanup tmp_dir lock_file lock_contents ?w3 =
           (Inr (),
            ?w3\<lparr>files := (if files ?w3 lock_file = Some (File lock_contents)
                         then (files ?w3)(tmp_dir := None, lock_file := None)
                         else (files ?w3)(tmp_dir := None)),
              calls := calls ?w3 @ Call_DeleteRecursively tmp_dir
                         # (if files ?w3 lock_file = Some (File lock_contents)
                            then [Call_Remove lock_file] else [])\<rparr>)"
      using ne unfolding lock_contents_def
      by (rule cleanup_result) (rule lock_file_contents_not_Nil)
    with True show ?thesis by (simp add: f3)
  next
    case False
    then obtain entries where d: "fs lock_file = Some (Dir entries)"
      by (auto simp: no_directory_at_def split: option.splits node.splits)
    then have "files ?w3 lock_file = Some (Dir entries)"
      by (simp add: f3)
    from cleanup_directory_lock [OF this ne, of lock_contents] False d show ?thesis
      by (simp add: f3)
  qed
  have r: "atomic_download P fuel handle download_fn module_dir timeout w = Some (?r, ?w4)"
    unfolding atomic_download_def Let_def N
    using A dp c
    by (simp add: lock_file_def lock_contents_def tmp_dir_def del: acquire_loop.simps)
  have m1: "files w1 module_dir = None"
    using A by (rule acquire_loop_Acquired)
  then have m2: "module_dir \<noteq> tmp_dir \<longrightarrow> files w2 module_dir = None"
    using gfile_MakeDirs_ok(3) [OF M, of module_dir] by simp
  have f4: "files ?w4 = (if ?own then fs(tmp_dir := None, lock_file := None)
                         else fs(tmp_dir := None))"
    by simp
  have c4: "calls ?w4 = calls w2 @ Call_Download handle tmp_dir # Call_DeleteRecursively tmp_dir
              # (if ?own then [Call_Remove lock_file] else [])"
    by (simp add: called_def)
  have t4: "files ?w4 tmp_dir = None"
    using ne by simp
  have l4: "files ?w4 lock_file = (if ?own then None else fs lock_file)"
    using ne by simp
  have k4: "module_dir \<noteq> tmp_dir \<and> module_dir \<noteq> lock_file \<longrightarrow>
              files ?w4 module_dir = fs module_dir"
    by simp
  have a4: "fs module_dir = files w2 module_dir \<longrightarrow> files ?w4 module_dir = None"
    using m2 by auto
  show ?thesis
    using r f4 c4 t4 l4 m1 m2 k4 a4 by blast
qed

text \<open>
  C1 as stated leaves the module directory absent after every failed download. Here the
  lock is acquired on an empty storage; while the download runs, another task takes the
  lock over, publishes \<open>/c/m\<close> and removes the lock file; then the download fails. The
  call raises the callback's error and \<open>/c/m\<close> is present.
\<close>
theorem download_failure_module_dir_counterexample:
  "fst (the (atomic_download example_proc (Suc 0) ''h'' outrun_download ''/c/m'' 600
               empty_world))
     = Inl (OtherError ''connection reset'')
   \<and> files (snd (the (atomic_download example_proc (Suc 0) ''h'' outrun_download ''/c/m'' 600
                        empty_world))) ''/c/m''
     = Some (Dir [(''saved_model.pb'', File ''xyz'')])"
  by (simp add: atomic_download_def example_proc_def empty_world_def outrun_download_def
      check_module_exists_def gfile_Exists_def lock_try_def Let_def called_def cleanup_def
      gfile_DeleteRecursively_def gfile_MakeDirs_def download_and_publish_def
      read_file_to_string_def lock_filename_def temp_download_dir_def
      lock_file_contents_def format_d_def dec_nat.simps digit_char_def
      write_string_exclusive_def)


theorem download_failure_cleanup_witness:
  "check_module_exists empty_world ''/c/m'' = Inr False
   \<and> acquire_loop example_proc (Suc 0) ''h'' ''/c/m''
        (lock_filename (absolute_path example_proc) ''/c/m'')
        (lock_file_contents (gethostname example_proc) (getpid example_proc)
           (uuid4_hex example_proc)) 600 empty_world
       = Some (Acquired,
               \<lparr>files = [''/c/m.lock'' \<mapsto> File ''host.42.u1''], clock = 0,
                calls = [Call_Write ''/c/m.lock'' ''host.42.u1'' False]\<rparr>)
   \<and> gfile_MakeDirs
        \<lparr>files = [''/c/m.lock'' \<mapsto> File ''host.42.u1''], clock = 0,
         calls = [Call_Write ''/c/m.lock'' ''host.42.u1'' False]\<rparr>
        (temp_download_dir (absolute_path example_proc) ''/c/m'' (uuid4_hex example_proc))
       = (Inr (),
          \<lparr>files = [''/c/m.lock'' \<mapsto> File ''host.42.u1'', ''/c/m.u1.tmp'' \<mapsto> Dir []],
           clock = 0,
           calls = [Call_Write ''/c/m.lock'' ''host.42.u1'' False,
                    Call_MakeDirs ''/c/m.u1.tmp'']\<rparr>)
   \<and> fst (failing_download ''h'' ''/c/m.u1.tmp''
             [''/c/m.lock'' \<mapsto> File ''host.42.u1'', ''/c/m.u1.tmp'' \<mapsto> Dir []])
       = Inl (OtherError ''connection reset'')
   \<and> (\<exists>w'. atomic_download example_proc (Suc 0) ''h'' failing_download ''/c/m'' 600 empty_world
               = Some (Inl (OtherError ''connection reset''), w')
            \<and> files w' ''/c/m.u1.tmp'' = None
            \<and> files w' ''/c/m'' = None
            \<and> files w' ''/c/m.lock'' = None
            \<and> calls w' = [Call_Write ''/c/m.lock'' ''host.42.u1'' False,
                           Call_MakeDirs ''/c/m.u1.tmp'', Call_Download ''h'' ''/c/m.u1.tmp'',
                           Call_DeleteRecursively ''/c/m.u1.tmp'', Call_Remove ''/c/m.lock''])
   \<and> (\<exists>w'. atomic_download example_proc (Suc 0) ''h'' usurped_download ''/c/m'' 600 empty_world
               = Some (Inl (OtherError ''connection reset''), w')
            \<and> files w' ''/c/m.u1.tmp'' = None
            \<and> files w' ''/c/m'' = None
            \<and> files w' ''/c/m.lock'' = Some (File ''other.9.u2'')
            \<and> calls w' = [Call_Write ''/c/m.lock'' ''host.42.u1'' False,
                           Call_MakeDirs ''/c/m.u1.tmp'', Call_Download ''h'' ''/c/m.u1.tmp'',
                           Call_DeleteRecursively ''/c/m.u1.tmp''])
   \<and> (\<exists>w'. atomic_download example_proc (Suc 0) ''h'' outrun_download ''/c/m'' 600 empty_world
               = Some (Inl (OtherError ''connection reset''), w')
            \<and> files w' ''/c/m.u1.tmp'' = None
            \<and> files w' ''/c/m'' = Some (Dir [(''saved_model.pb'', File ''xyz'')])
            \<and> files w' ''/c/m.lock'' = None
            \<and> calls w' = [Call_Write ''/c/m.lock'' ''host.42.u1'' False,
                           Call_MakeDirs ''/c/m.u1.tmp'', Call_Download ''h'' ''/c/m.u1.tmp'',
                           Call_DeleteRecursively ''/c/m.u1.tmp''])"
proof -
  let ?w1 = "\<lparr>files = [''/c/m.lock'' \<mapsto> File ''host.42.u1''], clock = 0,
              calls = [Call_Write ''/c/m.lock'' ''host.42.u1'' False]\<rparr>"
  let ?w2 = "\<lparr>files = [''/c/m.lock'' \<mapsto> File ''host.42.u1'', ''/c/m.u1.tmp'' \<mapsto> Dir []],
              clock = 0,
              calls = [Call_Write ''/c/m.lock'' ''host.42.u1'' False,
                       Call_MakeDirs ''/c/m.u1.tmp'']\<rparr>"
  let ?fs = "[''/c/m.lock'' \<mapsto> File ''host.42.u1'', ''/c/m.u1.tmp'' \<mapsto> Dir [],
             ''/c/m.u1.tmp'' \<mapsto> Dir [(''part'', File ''ab'')]]"
  let ?fs' = "[''/c/m.lock'' \<mapsto> File ''host.42.u1'', ''/c/m.u1.tmp'' \<mapsto> Dir [],
              ''/c/m.u1.tmp'' \<mapsto> Dir [(''part'', File ''ab'')],
              ''/c/m.lock'' \<mapsto> File ''other.9.u2'']"
  let ?fs'' = "([''/c/m.lock'' \<mapsto> File ''host.42.u1'', ''/c/m.u1.tmp'' \<mapsto> Dir [],
               ''/c/m.u1.tmp'' \<mapsto> Dir [(''part'', File ''ab'')]])
              (''/c/m.lock'' := None, ''/c/m'' \<mapsto> Dir [(''saved_model.pb'', File ''xyz'')])"
  have names: "lock_filename (absolute_path example_proc) ''/c/m'' = ''/c/m.lock''"
    "lock_file_contents (gethostname example_proc) (getpid example_proc)
       (uuid4_hex example_proc) = ''host.42.u1''"
    "temp_download_dir (absolute_path example_proc) ''/c/m'' (uuid4_hex example_proc)
       = ''/c/m.u1.tmp''"
    unfolding example_proc_def
    by (simp_all add: lock_filename_def lock_file_contents_def temp_download_dir_def
        format_d_def dec_nat.simps digit_char_def)
  have N: "check_module_exists empty_world ''/c/m'' = Inr False"
    by (simp add: check_module_exists_def gfile_Exists_def empty_world_def)
  have A: "acquire_loop example_proc (Suc 0) ''h'' ''/c/m''
        (lock_filename (absolute_path example_proc) ''/c/m'')
        (lock_file_contents (gethostname example_proc) (getpid example_proc)
           (uuid4_hex example_proc)) 600 empty_world = Some (Acquired, ?w1)"
    unfolding names
    by (simp add: lock_try_def example_proc_def empty_world_def write_string_exclusive_def
        check_module_exists_def gfile_Exists_def called_def Let_def)
  have M: "gfile_MakeDirs ?w1
        (temp_download_dir (absolute_path example_proc) ''/c/m'' (uuid4_hex example_proc))
       = (Inr (), ?w2)"
    unfolding names by (simp add: gfile_MakeDirs_def called_def Let_def)
  have D: "failing_download ''h''
        (temp_download_dir (absolute_path example_proc) ''/c/m'' (uuid4_hex example_proc))
        (files ?w2) = (Inl (OtherError ''connection reset''), ?fs)"
    unfolding names by (simp add: failing_download_def)
  have D': "usurped_download ''h''
        (temp_download_dir (absolute_path example_proc) ''/c/m'' (uuid4_hex example_proc))
        (files ?w2) = (Inl (OtherError ''connection reset''), ?fs')"
    unfolding names by (simp add: usurped_download_def)
  have D'': "outrun_download ''h''
        (temp_download_dir (absolute_path example_proc) ''/c/m'' (uuid4_hex example_proc))
        (files ?w2) = (Inl (OtherError ''connection reset''), ?fs'')"
    unfolding names by (simp add: outrun_download_def)
  have F: "fst (failing_download ''h'' ''/c/m.u1.tmp''
             [''/c/m.lock'' \<mapsto> File ''host.42.u1'', ''/c/m.u1.tmp'' \<mapsto> Dir []])
       = Inl (OtherError ''connection reset'')"
    by (simp add: failing_download_def)
  note t = download_failure_cleanup [where P = example_proc and download_fn = failing_download
        and fs = ?fs and module_dir = "''/c/m''", OF N A M D]
  note t' = download_failure_cleanup [where P = example_proc and download_fn = usurped_download
        and fs = ?fs' and module_dir = "''/c/m''", OF N A M D']
  note t'' = download_failure_cleanup [where P = example_proc and download_fn = outrun_download
        and fs = ?fs'' and module_dir = "''/c/m''", OF N A M D'']
  have c1: "\<exists>w'. atomic_download example_proc (Suc 0) ''h'' failing_download ''/c/m'' 600
                   empty_world = Some (Inl (OtherError ''connection reset''), w')
            \<and> files w' ''/c/m.u1.tmp'' = None
            \<and> files w' ''/c/m'' = None
            \<and> files w' ''/c/m.lock'' = None
            \<and> calls w' = [Call_Write ''/c/m.lock'' ''host.42.u1'' False,
                           Call_MakeDirs ''/c/m.u1.tmp'', Call_Download ''h'' ''/c/m.u1.tmp'',
                           Call_DeleteRecursively ''/c/m.u1.tmp'', Call_Remove ''/c/m.lock'']"
    using t unfolding names
    by (auto simp: no_directory_at_def simp del: acquire_loop.simps)
  have c2: "\<exists>w'. atomic_download example_proc (Suc 0) ''h'' usurped_download ''/c/m'' 600
                   empty_world = Some (Inl (OtherError ''connection reset''), w')
            \<and> files w' ''/c/m.u1.tmp'' = None
            \<and> files w' ''/c/m'' = None
            \<and> files w' ''/c/m.lock'' = Some (File ''other.9.u2'')
            \<and> calls w' = [Call_Write ''/c/m.lock'' ''host.42.u1'' False,
                           Call_MakeDirs ''/c/m.u1.tmp'', Call_Download ''h'' ''/c/m.u1.tmp'',
                           Call_DeleteRecursively ''/c/m.u1.tmp'']"
    using t' unfolding names
    by (auto simp: no_directory_at_def simp del: acquire_loop.simps)
  have c3: "\<exists>w'. atomic_download example_proc (Suc 0) ''h'' outrun_download ''/c/m'' 600
                   empty_world = Some (Inl (OtherError ''connection reset''), w')
            \<and> files w' ''/c/m.u1.tmp'' = None
            \<and> files w' ''/c/m'' = Some (Dir [(''saved_model.pb'', File ''xyz'')])
            \<and> files w' ''/c/m.lock'' = None
            \<and> calls w' = [Call_Write ''/c/m.lock'' ''host.42.u1'' False,
                           Call_MakeDirs ''/c/m.u1.tmp'', Call_Download ''h'' ''/c/m.u1.tmp'',
                           Call_DeleteRecursively ''/c/m.u1.tmp'']"
    using t'' unfolding names
    by (auto simp: no_directory_at_def simp del: acquire_loop.simps)
  show ?thesis
    using N A M F c1 c2 c3 unfolding names
    by (simp del: acquire_loop.simps)
qed

lemma files_slept [simp]: "files (slept j w) = files w"
  by (induction j arbitrary: w) simp_all

lemma clock_slept [simp]: "clock (slept j w) = clock w + 5 * real j"
  by (induction j arbitrary: w) (simp_all add: algebra_simps)

lemma calls_slept [simp]: "calls (slept j w) = calls w @ replicate j (Call_Sleep 5)"
  by (induction j arbitrary: w) (simp_all add: replicate_app_Cons_same)

lemma calls_removed [simp]: "calls (removed path w) = calls w @ [Call_Remove path]"
  by (simp add: removed_def called_def)

lemma clock_removed [simp]: "clock (removed path w) = clock w"
  by (simp add: removed_def called_def)











text \<open>
  C4. Suppose the call was not on the fast path, the lock was acquired, the download
  callback returned normally with the temporary directory in place, and the descriptor
  file was written. Then \<open>atomic_download\<close> returns the module directory and has called
  \<open>Rename\<close> exactly once, from the temporary directory to the module directory. If the
  module directory was absent it now holds what the temporary directory held; if it was
  already there (another task published first) it is untouched. In both cases the
  temporary directory is gone.
\<close>
theorem rename_publishes_once:
  fixes P :: proc and module_dir :: string
  defines "lock_file \<equiv> lock_filename (absolute_path P) module_dir"
    and "lock_contents \<equiv> lock_file_contents (gethostname P) (getpid P) (uuid4_hex P)"
    and "tmp_dir \<equiv> temp_download_dir (absolute_path P) module_dir (uuid4_hex P)"
  assumes N: "check_module_exists w module_dir = Inr False"
    and A: "acquire_loop P fuel handle module_dir lock_file lock_contents timeout w
              = Some (Acquired, w1)"
    and M: "gfile_MakeDirs w1 tmp_dir = (Inr (), w2)"
    and D: "download_fn handle tmp_dir (files w2) = (Inr (), fs)"
    and W: "write_module_descriptor_file P handle module_dir
              (called (Call_Download handle tmp_dir) (w2\<lparr>files := fs\<rparr>)) = (Inr (), w3)"
    and T: "files w3 tmp_dir \<noteq> None"
    and L: "no_directory_at (files w3) lock_file"
    and X: "module_dir \<noteq> tmp_dir" "module_dir \<noteq> lock_file"
  shows "\<exists>w'. atomic_download P fuel handle download_fn module_dir timeout w
                 = Some (Inr module_dir, w')
           \<and> filter is_rename (calls w')
               = filter is_rename (calls w) @ [Call_Rename tmp_dir module_dir]
           \<and> files w' tmp_dir = None
           \<and> files w' module_dir =
               (if files w3 module_dir \<noteq> None then files w3 module_dir
                else files w3 tmp_dir)"
proof -
  obtain r4 w4 where rn: "gfile_Rename w3 tmp_dir module_dir = (r4, w4)"
    by (cases "gfile_Rename w3 tmp_dir module_dir")
  let ?w4 = w4
  let ?w5 = "?w4\<lparr>files := (if files ?w4 lock_file = Some (File lock_contents)
                         then (files ?w4)(tmp_dir := None, lock_file := None)
                         else (files ?w4)(tmp_dir := None)),
              calls := calls ?w4 @ Call_DeleteRecursively tmp_dir
                         # (if files ?w4 lock_file = Some (File lock_contents)
                            then [Call_Remove lock_file] else [])\<rparr>"
  have ne: "tmp_dir \<noteq> lock_file"
    unfolding tmp_dir_def lock_file_def by (rule tmp_dir_not_lock_file)
  obtain n where n: "files w3 tmp_dir = Some n"
    using T by blast
  have r4: "r4 = (if files w3 module_dir \<noteq> None then Inl (OpError AlreadyExistsError)
                  else Inr ())"
    using rn by (auto simp: gfile_Rename_def Let_def n split: if_splits)
  have f4: "files ?w4 =
              (if files w3 module_dir \<noteq> None then files w3
               else (files w3)(tmp_dir := None, module_dir \<mapsto> n))"
    using rn by (auto simp: gfile_Rename_def Let_def n called_def split: if_splits)
  have c4: "calls ?w4 = calls w3 @ [Call_Rename tmp_dir module_dir]"
    using rn by (auto simp: gfile_Rename_def Let_def n called_def split: if_splits)
  have dp: "download_and_publish P handle download_fn module_dir tmp_dir w1 = (Inr (), ?w4)"
    by (simp add: download_and_publish_def M D W rn r4)
  have "files ?w4 lock_file = files w3 lock_file"
    using ne X by (simp add: f4)
  then have "no_directory_at (files ?w4) lock_file"
    using L by (simp add: no_directory_at_def)
  then have c: "cleanup tmp_dir lock_file lock_contents ?w4 = (Inr (), ?w5)"
    using ne unfolding lock_contents_def
    by (rule cleanup_result) (rule lock_file_contents_not_Nil)
  have r: "atomic_download P fuel handle download_fn module_dir timeout w
             = Some (Inr module_dir, ?w5)"
    unfolding atomic_download_def Let_def N
    using A dp c
    by (simp add: lock_file_def lock_contents_def tmp_dir_def del: acquire_loop.simps)
  have "filter is_rename (calls w3) = filter is_rename (calls w)"
    using write_module_descriptor_file_renames [OF W] gfile_MakeDirs_ok(1) [OF M]
      acquire_loop_renames [OF A]
    by (simp add: called_def)
  then have k: "filter is_rename (calls ?w5)
                  = filter is_rename (calls w) @ [Call_Rename tmp_dir module_dir]"
    by (simp add: c4)
  have t: "files ?w5 tmp_dir = None"
    using ne by simp
  have m: "files ?w5 module_dir =
             (if files w3 module_dir \<noteq> None then files w3 module_dir else files w3 tmp_dir)"
    using X by (simp add: f4 n)
  show ?thesis
    using r k t m by blast
qed



theorem rename_publishes_once_witness:
  "check_module_exists empty_world ''/c/m'' = Inr False
   \<and> acquire_loop example_proc (Suc 0) ''h'' ''/c/m''
        (lock_filename (absolute_path example_proc) ''/c/m'')
        (lock_file_contents (gethostname example_proc) (getpid example_proc)
           (uuid4_hex example_proc)) 600 empty_world
       = Some (Acquired,
               \<lparr>files = [''/c/m.lock'' \<mapsto> File ''host.42.u1''], clock = 0,
                calls = [Call_Write ''/c/m.lock'' ''host.42.u1'' False]\<rparr>)
   \<and> gfile_MakeDirs
        \<lparr>files = [''/c/m.lock'' \<mapsto> File ''host.42.u1''], clock = 0,
         calls = [Call_Write ''/c/m.lock'' ''host.42.u1'' False]\<rparr>
        (temp_download_dir (absolute_path example_proc) ''/c/m'' (uuid4_hex example_proc))
       = (Inr (),
          \<lparr>files = [''/c/m.lock'' \<mapsto> File ''host.42.u1'', ''/c/m.u1.tmp'' \<mapsto> Dir []],
           clock = 0,
           calls = [Call_Write ''/c/m.lock'' ''host.42.u1'' False,
                    Call_MakeDirs ''/c/m.u1.tmp'']\<rparr>)
   \<and> ''/c/m'' \<noteq> temp_download_dir (absolute_path example_proc) ''/c/m'' (uuid4_hex example_proc)
   \<and> ''/c/m'' \<noteq> lock_filename (absolute_path example_proc) ''/c/m''
   \<and> fst (complete_download ''h'' ''/c/m.u1.tmp''
             [''/c/m.lock'' \<mapsto> File ''host.42.u1'', ''/c/m.u1.tmp'' \<mapsto> Dir []]) = Inr ()
   \<and> (\<exists>w'. atomic_download example_proc (Suc 0) ''h'' complete_download ''/c/m'' 600 empty_world
               = Some (Inr ''/c/m'', w')
            \<and> filter is_rename (calls w') = [Call_Rename ''/c/m.u1.tmp'' ''/c/m'']
            \<and> files w' ''/c/m.u1.tmp'' = None
            \<and> files w' ''/c/m'' = Some (Dir [(''saved_model.pb'', File ''abc'')]))
   \<and> fst (overtaken_download ''h'' ''/c/m.u1.tmp''
             [''/c/m.lock'' \<mapsto> File ''host.42.u1'', ''/c/m.u1.tmp'' \<mapsto> Dir []]) = Inr ()
   \<and> (\<exists>w'. atomic_download example_proc (Suc 0) ''h'' overtaken_download ''/c/m'' 600 empty_world
               = Some (Inr ''/c/m'', w')
            \<and> filter is_rename (calls w') = [Call_Rename ''/c/m.u1.tmp'' ''/c/m'']
            \<and> files w' ''/c/m.u1.tmp'' = None
            \<and> files w' ''/c/m'' = Some (Dir [(''saved_model.pb'', File ''xyz'')]))"
proof -
  let ?w1 = "\<lparr>files = [''/c/m.lock'' \<mapsto> File ''host.42.u1''], clock = 0,
              calls = [Call_Write ''/c/m.lock'' ''host.42.u1'' False]\<rparr>"
  let ?w2 = "\<lparr>files = [''/c/m.lock'' \<mapsto> File ''host.42.u1'', ''/c/m.u1.tmp'' \<mapsto> Dir []],
              clock = 0,
              calls = [Call_Write ''/c/m.lock'' ''host.42.u1'' False,
                       Call_MakeDirs ''/c/m.u1.tmp'']\<rparr>"
  let ?fs = "[''/c/m.lock'' \<mapsto> File ''host.42.u1'', ''/c/m.u1.tmp'' \<mapsto> Dir [],
             ''/c/m.u1.tmp'' \<mapsto> Dir [(''saved_model.pb'', File ''abc'')]]"
  let ?fs' = "[''/c/m.lock'' \<mapsto> File ''host.42.u1'', ''/c/m.u1.tmp'' \<mapsto> Dir [],
              ''/c/m.u1.tmp'' \<mapsto> Dir [(''saved_model.pb'', File ''abc'')],
              ''/c/m'' \<mapsto> Dir [(''saved_model.pb'', File ''xyz'')]]"
  let ?readme = "''Module: h'' @ [CHR 0x0A] @ ''Download Time: 2020-01-01'' @ [CHR 0x0A]
                 @ ''Downloader Hostname: host (PID:42)''"
  let ?w3 = "\<lparr>files = ?fs(''/c/m.descriptor.txt'' \<mapsto> File ?readme), clock = 0,
              calls = [Call_Write ''/c/m.lock'' ''host.42.u1'' False,
                       Call_MakeDirs ''/c/m.u1.tmp'', Call_Download ''h'' ''/c/m.u1.tmp'',
                       Call_Write ''/c/m.descriptor.txt'' ?readme True]\<rparr>"
  let ?w3' = "\<lparr>files = ?fs'(''/c/m.descriptor.txt'' \<mapsto> File ?readme), clock = 0,
              calls = [Call_Write ''/c/m.lock'' ''host.42.u1'' False,
                       Call_MakeDirs ''/c/m.u1.tmp'', Call_Download ''h'' ''/c/m.u1.tmp'',
                       Call_Write ''/c/m.descriptor.txt'' ?readme True]\<rparr>"
  have names: "lock_filename (absolute_path example_proc) ''/c/m'' = ''/c/m.lock''"
    "lock_file_contents (gethostname example_proc) (getpid example_proc)
       (uuid4_hex example_proc) = ''host.42.u1''"
    "temp_download_dir (absolute_path example_proc) ''/c/m'' (uuid4_hex example_proc)
       = ''/c/m.u1.tmp''"
    unfolding example_proc_def
    by (simp_all add: lock_filename_def lock_file_contents_def temp_download_dir_def
        format_d_def dec_nat.simps digit_char_def)
  have N: "check_module_exists empty_world ''/c/m'' = Inr False"
    by (simp add: check_module_exists_def gfile_Exists_def empty_world_def)
  have A: "acquire_loop example_proc (Suc 0) ''h'' ''/c/m''
        (lock_filename (absolute_path example_proc) ''/c/m'')
        (lock_file_contents (gethostname example_proc) (getpid example_proc)
           (uuid4_hex example_proc)) 600 empty_world = Some (Acquired, ?w1)"
    unfolding names
    by (simp add: lock_try_def example_proc_def empty_world_def write_string_exclusive_def
        check_module_exists_def gfile_Exists_def called_def Let_def)
  have M: "gfile_MakeDirs ?w1
        (temp_download_dir (absolute_path example_proc) ''/c/m'' (uuid4_hex example_proc))
       = (Inr (), ?w2)"
    unfolding names by (simp add: gfile_MakeDirs_def called_def Let_def)
  have D: "complete_download ''h''
        (temp_download_dir (absolute_path example_proc) ''/c/m'' (uuid4_hex example_proc))
        (files ?w2) = (Inr (), ?fs)"
    unfolding names by (simp add: complete_download_def)
  have D': "overtaken_download ''h''
        (temp_download_dir (absolute_path example_proc) ''/c/m'' (uuid4_hex example_proc))
        (files ?w2) = (Inr (), ?fs')"
    unfolding names by (simp add: overtaken_download_def)
  have W: "write_module_descriptor_file example_proc ''h'' ''/c/m''
             (called (Call_Download ''h''
                (temp_download_dir (absolute_path example_proc) ''/c/m'' (uuid4_hex example_proc)))
                (?w2\<lparr>files := ?fs\<rparr>)) = (Inr (), ?w3)"
    unfolding names
    by (simp add: write_module_descriptor_file_def module_descriptor_file_def called_def Let_def
        example_proc_def write_string_exclusive_def format_d_def dec_nat.simps digit_char_def)
  have W': "write_module_descriptor_file example_proc ''h'' ''/c/m''
             (called (Call_Download ''h''
                (temp_download_dir (absolute_path example_proc) ''/c/m'' (uuid4_hex example_proc)))
                (?w2\<lparr>files := ?fs'\<rparr>)) = (Inr (), ?w3')"
    unfolding names
    by (simp add: write_module_descriptor_file_def module_descriptor_file_def called_def Let_def
        example_proc_def write_string_exclusive_def format_d_def dec_nat.simps digit_char_def)
  have T: "files ?w3 (temp_download_dir (absolute_path example_proc) ''/c/m''
                        (uuid4_hex example_proc)) \<noteq> None"
    and T': "files ?w3' (temp_download_dir (absolute_path example_proc) ''/c/m''
                        (uuid4_hex example_proc)) \<noteq> None"
    unfolding names by simp_all
  have L: "no_directory_at (files ?w3) (lock_filename (absolute_path example_proc) ''/c/m'')"
    and L': "no_directory_at (files ?w3') (lock_filename (absolute_path example_proc) ''/c/m'')"
    unfolding names by (simp_all add: no_directory_at_def)
  have X: "''/c/m'' \<noteq> temp_download_dir (absolute_path example_proc) ''/c/m''
                        (uuid4_hex example_proc)"
    "''/c/m'' \<noteq> lock_filename (absolute_path example_proc) ''/c/m''"
    unfolding names by simp_all
  have E: "calls empty_world = []"
    by (simp add: empty_world_def)
  show ?thesis
    using rename_publishes_once [where P = example_proc and download_fn = complete_download
        and fs = ?fs and module_dir = "''/c/m''", OF N A M D W T L X]
      rename_publishes_once [where P = example_proc and download_fn = overtaken_download
        and fs = ?fs' and module_dir = "''/c/m''", OF N A M D' W' T' L' X] N A M X D D' E
    unfolding names
    by (simp del: acquire_loop.simps)
qed

end
